theory Spec2Isabelle
  imports Complex_Main
begin

section \<open>JavaScript strings\<close>

text \<open>
  A JavaScript string is a sequence of UTF-16 code units. Each unit is kept as its
  number, so that the white space that \<open>String.prototype.trim\<close> removes beyond ASCII
  (U+00A0, U+FEFF, U+2028, ...) is part of the model. \<open>js\<close> reads an ASCII literal of
  the source as such a sequence.
\<close>

type_synonym jschar = nat
type_synonym jsstring = "jschar list"

definition js :: "string \<Rightarrow> jsstring" where
  "js s = map of_char s"

text \<open>White space and line terminators of ECMAScript, as \<open>trim\<close> strips them.\<close>

definition isWhiteSpace :: "jschar \<Rightarrow> bool" where
  "isWhiteSpace c =
     (c \<in> set [0x09, 0x0A, 0x0B, 0x0C, 0x0D, 0x20, 0xA0, 0x1680,
                0x2000, 0x2001, 0x2002, 0x2003, 0x2004, 0x2005, 0x2006, 0x2007,
                0x2008, 0x2009, 0x200A, 0x2028, 0x2029, 0x202F, 0x205F, 0x3000,
                0xFEFF])"

definition trim :: "jsstring \<Rightarrow> jsstring" where
  "trim s = rev (dropWhile isWhiteSpace (rev (dropWhile isWhiteSpace s)))"

definition startsWith :: "jsstring \<Rightarrow> jsstring \<Rightarrow> bool" where
  "startsWith s p = (take (length p) s = p)"

definition endsWith :: "jsstring \<Rightarrow> jsstring \<Rightarrow> bool" where
  "endsWith s p = (length p \<le> length s \<and> drop (length s - length p) s = p)"

text \<open>\<open>s.includes(p)\<close>: \<open>p\<close> occurs in \<open>s\<close> at some position.\<close>

fun str_includes :: "jsstring \<Rightarrow> jsstring \<Rightarrow> bool" where
  "str_includes [] p = (p = [])"
| "str_includes (c # s) p = (startsWith (c # s) p \<or> str_includes s p)"

section \<open>Values returned by \<open>JSON.parse\<close>\<close>

text \<open>
  \<open>JNumber x\<close> carries the value of the number. The module only asks of a number
  whether it is one (\<open>typeof\<close>) and whether it is zero (truthiness). An object is the
  list of its own properties; \<open>getProp\<close> reads the first entry of a name. A property that
  is absent reads as \<open>undefined\<close>, which is \<open>None\<close>.
\<close>

datatype json =
    JNull
  | JBool bool
  | JNumber real
  | JString jsstring
  | JArray "json list"
  | JObject "(jsstring \<times> json) list"

datatype jstype = TUndefined | TObject | TBoolean | TNumber | TString

fun typeof :: "json option \<Rightarrow> jstype" where
  "typeof None = TUndefined"
| "typeof (Some JNull) = TObject"
| "typeof (Some (JBool b)) = TBoolean"
| "typeof (Some (JNumber x)) = TNumber"
| "typeof (Some (JString s)) = TString"
| "typeof (Some (JArray xs)) = TObject"
| "typeof (Some (JObject kvs)) = TObject"

text \<open>ToBoolean: \<open>undefined\<close>, \<open>null\<close>, \<open>false\<close>, zero and the empty string are falsy.\<close>

fun truthy :: "json option \<Rightarrow> bool" where
  "truthy None = False"
| "truthy (Some JNull) = False"
| "truthy (Some (JBool b)) = b"
| "truthy (Some (JNumber x)) = (x \<noteq> 0)"
| "truthy (Some (JString s)) = (s \<noteq> [])"
| "truthy (Some (JArray xs)) = True"
| "truthy (Some (JObject kvs)) = True"

text \<open>
  Property access \<open>v[k]\<close> on a value that is neither \<open>null\<close> nor \<open>undefined\<close>, for the
  names this module reads: none of them is a property that arrays, strings, numbers,
  booleans or \<open>Object.prototype\<close> provide, so only an object's own entry is found.
\<close>

fun getProp :: "json \<Rightarrow> jsstring \<Rightarrow> json option" where
  "getProp (JObject kvs) k = map_of kvs k"
| "getProp v k = None"

text \<open>\<open>Array.isArray(v)\<close> and \<open>typeof item === 'string'\<close> for every item.\<close>

fun isArray :: "json option \<Rightarrow> bool" where
  "isArray (Some (JArray xs)) = True"
| "isArray v = False"

fun isString :: "json \<Rightarrow> bool" where
  "isString (JString s) = True"
| "isString v = False"

fun everyString :: "json option \<Rightarrow> bool" where
  "everyString (Some (JArray xs)) = list_all isString xs"
| "everyString v = False"

text \<open>\<open>[...].includes(v)\<close> on an array of strings: \<open>v\<close> is a string equal to an element.\<close>

fun array_includes :: "jsstring list \<Rightarrow> json option \<Rightarrow> bool" where
  "array_includes xs (Some (JString s)) = (s \<in> set xs)"
| "array_includes xs v = False"

section \<open>Errors, environment and state\<close>

text \<open>
  What a \<open>catch\<close> may receive (\<open>error: any\<close>): an \<open>Error\<close> built by this module with
  its message; the engine's \<open>TypeError\<close>, raised for reading a property of \<open>undefined\<close>
  or \<open>null\<close> and for calling what is not a function; a thrown \<open>null\<close> or \<open>undefined\<close>
  (\<open>Nullish\<close>); or any other value a collaborator (the remote call, the credential picker)
  threw: the value of its \<open>message\<close> property, \<open>None\<close> when it has none, and a number
  that stands for the rest of it. A \<open>message\<close> need not be a string: it is any value of
  the shape of JSON data. The text of the engine's \<open>TypeError\<close> is the engine's own; it is
  taken not to contain \<open>Requested entity was not found.\<close>
\<close>

datatype thrown =
    Error jsstring
  | TypeError
  | Nullish
  | Foreign "json option" nat

text \<open>
  \<open>window.aistudio\<close>: each method may be undefined; a defined one resolves or rejects.
\<close>

record aistudio =
  hasSelectedApiKey :: "(thrown + bool) option"
  openSelectKey :: "(thrown + unit) option"

text \<open>
  What the module reads from outside: \<open>process.env.API_KEY\<close>, \<open>window.aistudio\<close>,
  the outcome of \<open>ai.models.generateContent\<close> (a rejection, or a response whose
  \<open>text\<close> may be undefined) and the engine's \<open>JSON.parse\<close> (a value, or the message of
  its \<open>SyntaxError\<close>).
\<close>

record env =
  API_KEY :: "jsstring option"
  window_aistudio :: "aistudio option"
  generateContent :: "thrown + jsstring option"
  JSON_parse :: "jsstring \<Rightarrow> jsstring + json"

text \<open>
  The module's variable \<open>hasUserSelectedApiKeyAssumeSuccess\<close>, and two counters of the
  calls made to collaborators.
\<close>

record state =
  hasUserSelectedApiKeyAssumeSuccess :: bool
  remoteCalls :: nat
  pickerOpened :: nat

definition isProcessEnvApiKeySet :: "env \<Rightarrow> bool" where
  "isProcessEnvApiKeySet env = (case API_KEY env of None \<Rightarrow> False | Some k \<Rightarrow> k \<noteq> [])"

section \<open>Credential check and recovery\<close>

definition API_KEY_REQUIRED_NO_AISTUDIO :: jsstring where
  "API_KEY_REQUIRED_NO_AISTUDIO = js ''API_KEY_REQUIRED_NO_AISTUDIO''"

definition API_KEY_SELECTION_FAILED :: jsstring where
  "API_KEY_SELECTION_FAILED = js ''API_KEY_SELECTION_FAILED''"

definition API_KEY_RESELECTION_FAILED :: jsstring where
  "API_KEY_RESELECTION_FAILED = js ''API_KEY_RESELECTION_FAILED''"

definition API_KEY_INVALID_OR_UNSELECTED :: jsstring where
  "API_KEY_INVALID_OR_UNSELECTED = js ''API_KEY_INVALID_OR_UNSELECTED''"

definition notFoundSignal :: jsstring where
  "notFoundSignal = js ''Requested entity was not found.''"

text \<open>
  \<open>checkAndPromptApiKey\<close>. With no picker (\<open>window.aistudio\<close> or its
  \<open>hasSelectedApiKey\<close> undefined) the credential of the environment decides. With one,
  the picker is opened when it reports no key or the flag is not set; whatever goes wrong
  in opening it, the call of an undefined \<open>openSelectKey\<close> included, is caught and raised
  as \<open>API_KEY_SELECTION_FAILED\<close>. A rejection of \<open>hasSelectedApiKey\<close> is not caught.
\<close>

definition checkAndPromptApiKey :: "env \<Rightarrow> state \<Rightarrow> (thrown + unit) \<times> state" where
  "checkAndPromptApiKey env st =
     (case (case window_aistudio env of None \<Rightarrow> None
            | Some a \<Rightarrow> (case hasSelectedApiKey a of None \<Rightarrow> None | Some h \<Rightarrow> Some (a, h))) of
        None \<Rightarrow>
          if \<not> isProcessEnvApiKeySet env then (Inl (Error API_KEY_REQUIRED_NO_AISTUDIO), st)
          else (Inr (), st\<lparr>hasUserSelectedApiKeyAssumeSuccess := True\<rparr>)
      | Some (a, Inl e) \<Rightarrow> (Inl e, st)
      | Some (a, Inr hasKey) \<Rightarrow>
          if \<not> hasKey \<or> \<not> hasUserSelectedApiKeyAssumeSuccess st then
            (case openSelectKey a of
               None \<Rightarrow> (Inl (Error API_KEY_SELECTION_FAILED), st)
             | Some (Inl e) \<Rightarrow>
                 (Inl (Error API_KEY_SELECTION_FAILED), st\<lparr>pickerOpened := pickerOpened st + 1\<rparr>)
             | Some (Inr u) \<Rightarrow>
                 (Inr (), st\<lparr>pickerOpened := pickerOpened st + 1,
                             hasUserSelectedApiKeyAssumeSuccess := True\<rparr>))
          else (Inr (), st))"

text \<open>
  The test \<open>error.message && error.message.includes('Requested entity was not found.')\<close>
  of \<open>handleApiKeyError\<close>: \<open>Inr\<close> its truth value, or \<open>Inl\<close> what evaluating it throws.
  Reading \<open>message\<close> of \<open>null\<close> or \<open>undefined\<close> throws a \<open>TypeError\<close>. A message that is
  absent or falsy ends the test. On a string \<open>includes\<close> looks for the text, on an array
  for an element that is this string; a number, \<open>true\<close> and an object of data have no
  function \<open>includes\<close>, and calling it throws a \<open>TypeError\<close>.
\<close>

fun messageTest :: "thrown \<Rightarrow> thrown + bool" where
  "messageTest (Error m) = Inr (str_includes m notFoundSignal)"
| "messageTest TypeError = Inr False"
| "messageTest Nullish = Inl TypeError"
| "messageTest (Foreign None x) = Inr False"
| "messageTest (Foreign (Some message) x) =
     (if \<not> truthy (Some message) then Inr False
      else case message of
        JString m \<Rightarrow> Inr (str_includes m notFoundSignal)
      | JArray xs \<Rightarrow> Inr (JString notFoundSignal \<in> set xs)
      | _ \<Rightarrow> Inl TypeError)"

text \<open>
  \<open>handleApiKeyError\<close>. When the test itself throws, that \<open>TypeError\<close> leaves the
  function in place of the error it was given, before anything is done. On the signal the
  flag is reset and the picker, if there is one, is opened again. Every path ends in a
  \<open>throw\<close>.
\<close>

definition handleApiKeyError :: "env \<Rightarrow> thrown \<Rightarrow> state \<Rightarrow> (thrown + unit) \<times> state" where
  "handleApiKeyError env error st =
     (case messageTest error of
        Inl typeError \<Rightarrow> (Inl typeError, st)
      | Inr True \<Rightarrow>
        (let st1 = st\<lparr>hasUserSelectedApiKeyAssumeSuccess := False\<rparr> in
         case (case window_aistudio env of None \<Rightarrow> None | Some a \<Rightarrow> openSelectKey a) of
           Some (Inr u) \<Rightarrow>
             (Inl (Error API_KEY_INVALID_OR_UNSELECTED),
              st1\<lparr>pickerOpened := pickerOpened st1 + 1,
                   hasUserSelectedApiKeyAssumeSuccess := True\<rparr>)
         | Some (Inl e) \<Rightarrow>
             (Inl (Error API_KEY_RESELECTION_FAILED), st1\<lparr>pickerOpened := pickerOpened st1 + 1\<rparr>)
         | None \<Rightarrow>
             if \<not> isProcessEnvApiKeySet env then (Inl (Error API_KEY_REQUIRED_NO_AISTUDIO), st1)
             else (Inl (Error API_KEY_INVALID_OR_UNSELECTED), st1))
      | Inr False \<Rightarrow> (Inl error, st))"

section \<open>The analysis pipeline\<close>

subsection \<open>Messages of the errors the pipeline builds\<close>

definition msgNoApiKey :: jsstring where
  "msgNoApiKey = js ''API_KEY is not defined. Please select an API key to proceed.''"

definition msgEmpty :: jsstring where
  "msgEmpty = js ''AI response was empty. Cannot parse JSON.''"

definition msgEmptyAfterCleaning :: jsstring where
  "msgEmptyAfterCleaning =
     js ''AI response contained only markdown fences or was empty after cleaning. Cannot parse JSON.''"

definition msgNotValidJSON :: "jsstring \<Rightarrow> jsstring \<Rightarrow> jsstring" where
  "msgNotValidJSON parseErrorMessage jsonStr =
     js ''AI response is not valid JSON. Details: '' @ parseErrorMessage @
     js ''. Raw response: '' @ jsonStr"

definition msgTopLevel :: jsstring where
  "msgTopLevel =
     js ''AI response is missing critical data or is malformed after parsing. '' @
     js ''Ensure all top-level properties (overallScore, skinType, fitzpatrickScale, '' @
     js ''issues, recommendations, explainability) are present and correctly typed.''"

text \<open>The double quote that surrounds the key in the two messages below is unit 0x22.\<close>

definition msgIssueScore :: "jsstring \<Rightarrow> jsstring" where
  "msgIssueScore key =
     js ''AI response issue '' @ [0x22] @ key @ [0x22] @ js '' is missing score or is malformed.''"

definition msgSymmetryDescription :: jsstring where
  "msgSymmetryDescription =
     js ''AI response symmetry issue is missing description or is malformed.''"

definition msgIssueSeverity :: "jsstring \<Rightarrow> jsstring" where
  "msgIssueSeverity key =
     js ''AI response issue '' @ [0x22] @ key @ [0x22] @
     js '' is missing severity or is malformed.''"

definition msgRecommendation :: "jsstring \<Rightarrow> jsstring" where
  "msgRecommendation key =
     js ''AI response recommendation '' @ [0x22] @ key @ [0x22] @
     js '' is missing or malformed (expected array of strings).''"

subsection \<open>Cleaning the response text\<close>

definition fenceJson :: jsstring where
  "fenceJson = js ''```json''"

definition fence :: jsstring where
  "fence = js ''```''"

text \<open>
  The two \<open>if\<close>s that remove the fences, on the trimmed text: \<open>substring(n)\<close> drops
  \<open>n\<close> units, \<open>substring(0, length - n)\<close> keeps all but the last \<open>n\<close>.
\<close>

definition stripFences :: "jsstring \<Rightarrow> jsstring" where
  "stripFences jsonStr =
     (let s1 = (if startsWith jsonStr fenceJson then drop (length fenceJson) jsonStr
                else jsonStr)
      in if endsWith s1 fence then take (length s1 - length fence) s1 else s1)"

subsection \<open>Structural validation\<close>

definition skinTypes :: "jsstring list" where
  "skinTypes = map js [''oily'', ''dry'', ''combination'', ''normal'', ''unknown'']"

definition fitzpatrickScales :: "jsstring list" where
  "fitzpatrickScales = map js [''I'', ''II'', ''III'', ''IV'', ''V'', ''VI'', ''unknown'']"

text \<open>The condition of the \<open>if\<close> that guards the top-level properties.\<close>

definition topLevelMalformed :: "json \<Rightarrow> bool" where
  "topLevelMalformed parsedResult =
     (\<not> truthy (Some parsedResult) \<or>
      typeof (getProp parsedResult (js ''overallScore'')) \<noteq> TNumber \<or>
      \<not> array_includes skinTypes (getProp parsedResult (js ''skinType'')) \<or>
      \<not> array_includes fitzpatrickScales (getProp parsedResult (js ''fitzpatrickScale'')) \<or>
      typeof (getProp parsedResult (js ''issues'')) \<noteq> TObject \<or>
      getProp parsedResult (js ''issues'') = Some JNull \<or>
      typeof (getProp parsedResult (js ''recommendations'')) \<noteq> TObject \<or>
      getProp parsedResult (js ''recommendations'') = Some JNull \<or>
      \<not> truthy (getProp parsedResult (js ''explainability'')))"

definition requiredIssueKeys :: "jsstring list" where
  "requiredIssueKeys =
     map js [''acne'', ''wrinkles'', ''hyperpigmentation'', ''pores'', ''redness'', ''texture'',
             ''hydration'', ''oiliness'', ''darkCircles'', ''symmetry'']"

text \<open>
  The loop over the issue keys: the first key that fails a check ends it with that
  check's error; \<open>None\<close> when every key passes.
\<close>

fun checkIssues :: "json \<Rightarrow> jsstring list \<Rightarrow> thrown option" where
  "checkIssues issues [] = None"
| "checkIssues issues (key # keys) =
     (case getProp issues key of
        None \<Rightarrow> Some (Error (msgIssueScore key))
      | Some issue \<Rightarrow>
          if \<not> truthy (Some issue) \<or> typeof (getProp issue (js ''score'')) \<noteq> TNumber
          then Some (Error (msgIssueScore key))
          else if key = js ''symmetry'' then
            (if typeof (getProp issue (js ''description'')) \<noteq> TString
             then Some (Error msgSymmetryDescription)
             else checkIssues issues keys)
          else
            (if typeof (getProp issue (js ''severity'')) \<noteq> TString
             then Some (Error (msgIssueSeverity key))
             else checkIssues issues keys))"

definition requiredRecommendationKeys :: "jsstring list" where
  "requiredRecommendationKeys =
     map js [''morningRoutine'', ''eveningRoutine'', ''weeklyTreatments'', ''lifestyleTips'']"

fun checkRecommendations :: "json \<Rightarrow> jsstring list \<Rightarrow> thrown option" where
  "checkRecommendations recommendations [] = None"
| "checkRecommendations recommendations (key # keys) =
     (let routine = getProp recommendations key in
      if \<not> isArray routine \<or> \<not> everyString routine
      then Some (Error (msgRecommendation key))
      else checkRecommendations recommendations keys)"

text \<open>
  The validation of the parsed value, from the top-level \<open>if\<close> to \<open>return parsedResult\<close>.
  \<open>issues\<close> and \<open>recommendations\<close> are objects when the loops read them, since the
  top-level check has passed.
\<close>

definition validate :: "json \<Rightarrow> thrown + json" where
  "validate parsedResult =
     (if topLevelMalformed parsedResult then Inl (Error msgTopLevel)
      else case (getProp parsedResult (js ''issues''),
                 getProp parsedResult (js ''recommendations'')) of
        (Some issues, Some recommendations) \<Rightarrow>
          (case checkIssues issues requiredIssueKeys of
             Some e \<Rightarrow> Inl e
           | None \<Rightarrow>
               (case checkRecommendations recommendations requiredRecommendationKeys of
                  Some e \<Rightarrow> Inl e
                | None \<Rightarrow> Inr parsedResult))
      | _ \<Rightarrow> Inl TypeError)"

subsection \<open>\<open>analyzeSkinImage\<close>\<close>

text \<open>The body of the \<open>try\<close> block after the remote call has returned \<open>response\<close>.\<close>

definition handleResponse :: "env \<Rightarrow> jsstring option \<Rightarrow> thrown + json" where
  "handleResponse env response_text =
     (case response_text of
        None \<Rightarrow> Inl TypeError
      | Some text \<Rightarrow>
          (let jsonStr = trim text in
           if jsonStr = [] then Inl (Error msgEmpty)
           else
             (let jsonStr = trim (stripFences jsonStr) in
              if jsonStr = [] then Inl (Error msgEmptyAfterCleaning)
              else case JSON_parse env jsonStr of
                Inl parseErrorMessage \<Rightarrow>
                  Inl (Error (msgNotValidJSON parseErrorMessage jsonStr))
              | Inr parsedResult \<Rightarrow> validate parsedResult)))"

text \<open>
  The whole function. The key check is outside the \<open>try\<close>; whatever the \<open>try\<close> block
  throws goes through \<open>handleApiKeyError\<close>, and \<open>throw error\<close> follows should that
  return.
\<close>

definition analyzeSkinImage :: "env \<Rightarrow> state \<Rightarrow> (thrown + json) \<times> state" where
  "analyzeSkinImage env st =
     (if \<not> isProcessEnvApiKeySet env then (Inl (Error msgNoApiKey), st)
      else
        (let st1 = st\<lparr>remoteCalls := remoteCalls st + 1\<rparr> in
         case (case generateContent env of
                 Inl e \<Rightarrow> Inl e
               | Inr response_text \<Rightarrow> handleResponse env response_text) of
           Inr parsedResult \<Rightarrow> (Inr parsedResult, st1)
         | Inl error \<Rightarrow>
             (case handleApiKeyError env error st1 of
                (Inl e, st2) \<Rightarrow> (Inl e, st2)
              | (Inr u, st2) \<Rightarrow> (Inl error, st2))))"

section \<open>The scan page\<close>

text \<open>
  \<open>ScanPage\<close> as a state machine. The state variables of the component are those a
  handler reads or the rendering depends on; the alert text \<open>error\<close> is shown and never
  read, and is left out. A \<open>MediaStream\<close> is the number under which \<open>getUserMedia\<close>
  handed it out.
\<close>

record page =
  loading :: bool
  isInitializing :: bool
  stream :: "nat option"
  capturedImage :: "jsstring option"
  imageMimeType :: "jsstring option"
  apiKeyRequired :: bool
  cameraEnabled :: bool
  cameraUnavailable :: bool

text \<open>
  Around the component: the state of the service module, whether the component is
  mounted, how many streams \<open>getUserMedia\<close> has handed out, the streams whose tracks
  were stopped (one entry for each pass of \<open>track.stop()\<close> over a stream), and the value of
  \<open>stream\<close> that the effect which ran last has captured for its cleanup.
\<close>

record world =
  page :: page
  service :: state
  mounted :: bool
  acquired :: nat
  stopped :: "nat list"
  effectStream :: "nat option"

text \<open>The streams that were handed out and never stopped: the camera is held for each.\<close>

definition live :: "world \<Rightarrow> nat list" where
  "live w = filter (\<lambda>i. i \<notin> set (stopped w)) [0..<acquired w]"

text \<open>\<open>!!s\<close> for a string or \<open>null\<close>.\<close>

definition present :: "jsstring option \<Rightarrow> bool" where
  "present s = (case s of None \<Rightarrow> False | Some t \<Rightarrow> t \<noteq> [])"

text \<open>
  \<open>videoRef.current\<close> and \<open>canvasRef.current\<close> are set while the element is rendered.
  The markup renders the video only under \<open>!isInitializing && !apiKeyRequired && !loading
  && !capturedImage\<close> and \<open>cameraEnabled\<close>, the canvas under the same and \<open>cameraEnabled ||
  cameraUnavailable\<close>.
\<close>

definition videoRendered :: "page \<Rightarrow> bool" where
  "videoRendered p =
     (\<not> isInitializing p \<and> \<not> apiKeyRequired p \<and> \<not> loading p \<and>
      \<not> present (capturedImage p) \<and> cameraEnabled p)"

definition canvasRendered :: "page \<Rightarrow> bool" where
  "canvasRendered p =
     (\<not> isInitializing p \<and> \<not> apiKeyRequired p \<and> \<not> loading p \<and>
      \<not> present (capturedImage p) \<and> (cameraEnabled p \<or> cameraUnavailable p))"

text \<open>\<open>getUserMedia\<close> resolves with a new stream or rejects.\<close>

datatype camera = Granted | Refused

text \<open>
  \<open>e.message === m\<close> for a caught value that is not \<open>null\<close> or \<open>undefined\<close>: the message
  is a string and equal to \<open>m\<close>. The engine's own text of a \<open>TypeError\<close> is none of the
  constants compared with. Of \<open>null\<close> and \<open>undefined\<close> the read throws: the handlers
  below say what is left undone then.
\<close>

fun hasMessage :: "thrown \<Rightarrow> jsstring \<Rightarrow> bool" where
  "hasMessage (Error m') m = (m' = m)"
| "hasMessage (Foreign (Some (JString m')) x) m = (m' = m)"
| "hasMessage e m = False"

text \<open>
  \<open>init\<close> of the effect. The state it has set before its first \<open>await\<close> is what is
  rendered when \<open>videoRef.current\<close> is read. When the credential check rejects with
  \<open>null\<close> or \<open>undefined\<close>, reading \<open>keyError.message\<close> throws inside the \<open>catch\<close>, and
  \<open>init\<close> ends there with \<open>isInitializing\<close> still set.
\<close>

definition init :: "env \<Rightarrow> camera \<Rightarrow> world \<Rightarrow> world" where
  "init env cam w =
     (let p1 = (page w)\<lparr>isInitializing := True, apiKeyRequired := False,
                        cameraEnabled := False, cameraUnavailable := False\<rparr>
      in case checkAndPromptApiKey env (service w) of
        (Inl keyError, sv) \<Rightarrow>
          if keyError = Nullish then w\<lparr>page := p1, service := sv\<rparr>
          else
            w\<lparr>page := p1\<lparr>apiKeyRequired :=
                            hasMessage keyError API_KEY_REQUIRED_NO_AISTUDIO \<or>
                            hasMessage keyError API_KEY_SELECTION_FAILED,
                          isInitializing := False\<rparr>,
              service := sv\<rparr>
      | (Inr u, sv) \<Rightarrow>
          (case cam of
             Granted \<Rightarrow>
               w\<lparr>page := (if videoRendered p1
                           then p1\<lparr>stream := Some (acquired w), cameraEnabled := True\<rparr>
                           else p1)\<lparr>isInitializing := False\<rparr>,
                 service := sv, acquired := acquired w + 1\<rparr>
           | Refused \<Rightarrow>
               w\<lparr>page := p1\<lparr>cameraUnavailable := True, isInitializing := False\<rparr>,
                 service := sv\<rparr>))"

text \<open>The cleanup of the effect, and the unmounting of the component, which runs it.\<close>

definition cleanup :: "world \<Rightarrow> world" where
  "cleanup w =
     (case effectStream w of None \<Rightarrow> w | Some s \<Rightarrow> w\<lparr>stopped := stopped w @ [s]\<rparr>)"

definition unmount :: "world \<Rightarrow> world" where
  "unmount w = (cleanup w)\<lparr>mounted := False\<rparr>"

text \<open>
  The effect depends on \<open>stream\<close>: when \<open>stream\<close> is not the value the last run has
  captured, the cleanup of that run is run and then the effect again.
\<close>

definition runEffect :: "env \<Rightarrow> camera \<Rightarrow> world \<Rightarrow> world" where
  "runEffect env cam w =
     (if stream (page w) \<noteq> effectStream w
      then init env cam ((cleanup w)\<lparr>effectStream := stream (page w)\<rparr>)
      else w)"

text \<open>
  \<open>handleSelectApiKey\<close>. A rejection of the picker, and the \<open>TypeError\<close> of calling a
  picker that is not there, are caught: the prompt stays. When the picker rejects with
  \<open>null\<close> or \<open>undefined\<close>, reading \<open>keyError.message\<close> for the alert text throws before
  \<open>setApiKeyRequired(true)\<close>; the \<open>finally\<close> still clears \<open>loading\<close>.
\<close>

definition handleSelectApiKey :: "env \<Rightarrow> world \<Rightarrow> world" where
  "handleSelectApiKey env w =
     (case (case window_aistudio env of None \<Rightarrow> None | Some a \<Rightarrow> openSelectKey a) of
        Some (Inr u) \<Rightarrow>
          w\<lparr>page := (if stream (page w) \<noteq> None
                      then (page w)\<lparr>cameraEnabled := True, cameraUnavailable := False\<rparr>
                      else page w)\<lparr>apiKeyRequired := False, loading := False\<rparr>,
            service := (service w)\<lparr>pickerOpened := pickerOpened (service w) + 1\<rparr>\<rparr>
      | Some (Inl keyError) \<Rightarrow>
          w\<lparr>page := (if keyError = Nullish then page w
                      else (page w)\<lparr>apiKeyRequired := True\<rparr>)\<lparr>loading := False\<rparr>,
            service := (service w)\<lparr>pickerOpened := pickerOpened (service w) + 1\<rparr>\<rparr>
      | None \<Rightarrow> w\<lparr>page := (page w)\<lparr>apiKeyRequired := True, loading := False\<rparr>\<rparr>)"

text \<open>
  \<open>captureImage\<close>, given whether the canvas has a 2d context and the data URL it draws.
\<close>

definition captureImage :: "bool \<Rightarrow> jsstring \<Rightarrow> world \<Rightarrow> world" where
  "captureImage context imageData w =
     (if videoRendered (page w) \<and> canvasRendered (page w) \<and> context then
        (let p1 = (page w)\<lparr>capturedImage := Some imageData,
                           imageMimeType := Some (js ''image/jpeg'')\<rparr>
         in case stream (page w) of
           None \<Rightarrow> w\<lparr>page := p1\<rparr>
         | Some s \<Rightarrow>
             w\<lparr>page := p1\<lparr>stream := None, cameraEnabled := False\<rparr>,
               stopped := stopped w @ [s]\<rparr>)
      else w)"

text \<open>
  \<open>handleFileChange\<close>, given the file chosen, if any: its type, and its base64 text when
  \<open>fileToBase64\<close> resolves.
\<close>

definition handleFileChange :: "(jsstring \<times> jsstring option) option \<Rightarrow> world \<Rightarrow> world" where
  "handleFileChange file w =
     (case file of
        None \<Rightarrow> w
      | Some (type, None) \<Rightarrow> w\<lparr>page := (page w)\<lparr>loading := False\<rparr>\<rparr>
      | Some (type, Some base64) \<Rightarrow>
          (let p1 = (page w)\<lparr>capturedImage := Some (js ''data:'' @ type @ js '';base64,'' @ base64),
                             imageMimeType := Some type, loading := False\<rparr>
           in case stream (page w) of
             None \<Rightarrow> w\<lparr>page := p1\<rparr>
           | Some s \<Rightarrow>
               w\<lparr>page := p1\<lparr>stream := None, cameraEnabled := False\<rparr>,
                 stopped := stopped w @ [s]\<rparr>))"

text \<open>
  \<open>handleAnalyze\<close>: a result navigates to the results page, which unmounts this one; an
  error goes through \<open>handleApiKeyError\<close> once more. What that throws is compared with
  the three constants; were it \<open>null\<close> or \<open>undefined\<close>, the read of its \<open>message\<close> would
  throw and leave \<open>apiKeyRequired\<close> as it is, which is what no match does; the \<open>finally\<close>
  clears \<open>loading\<close> in every case.
\<close>

definition handleAnalyze :: "env \<Rightarrow> world \<Rightarrow> world" where
  "handleAnalyze env w =
     (if present (capturedImage (page w)) \<and> present (imageMimeType (page w)) then
        (case analyzeSkinImage env (service w) of
           (Inr result, sv) \<Rightarrow> unmount (w\<lparr>service := sv\<rparr>)
         | (Inl err, sv) \<Rightarrow>
             (case handleApiKeyError env err sv of
                (Inl handledError, sv') \<Rightarrow>
                  w\<lparr>page := (page w)\<lparr>apiKeyRequired :=
                                        (if hasMessage handledError API_KEY_INVALID_OR_UNSELECTED \<or>
                                            hasMessage handledError API_KEY_RESELECTION_FAILED \<or>
                                            hasMessage handledError API_KEY_REQUIRED_NO_AISTUDIO
                                         then True else apiKeyRequired (page w)),
                                      loading := False\<rparr>,
                    service := sv'\<rparr>
              | (Inr u, sv') \<Rightarrow> w\<lparr>page := (page w)\<lparr>loading := False\<rparr>, service := sv'\<rparr>))
      else w)"

definition retakePhoto :: "camera \<Rightarrow> world \<Rightarrow> world" where
  "retakePhoto cam w =
     (let p1 = (page w)\<lparr>capturedImage := None, imageMimeType := None, loading := True\<rparr>
      in case stream (page w) of
        None \<Rightarrow>
          (case cam of
             Granted \<Rightarrow>
               w\<lparr>page := (if videoRendered p1
                           then p1\<lparr>stream := Some (acquired w), cameraEnabled := True,
                                   cameraUnavailable := False\<rparr>
                           else p1)\<lparr>loading := False\<rparr>,
                 acquired := acquired w + 1\<rparr>
           | Refused \<Rightarrow> w\<lparr>page := p1\<lparr>cameraUnavailable := True, loading := False\<rparr>\<rparr>)
      | Some s \<Rightarrow>
          w\<lparr>page := p1\<lparr>cameraEnabled := True, cameraUnavailable := False, loading := False\<rparr>\<rparr>)"

text \<open>
  What can happen to a mounted page: the effect runs again, the user presses one of the
  buttons the markup offers in the state as rendered, or navigates away.
\<close>

datatype event =
    Effect env camera
  | SelectApiKey env
  | TakePhoto bool jsstring
  | Upload "(jsstring \<times> jsstring option) option"
  | Analyze env
  | Retake camera
  | NavigateAway

fun offered :: "page \<Rightarrow> event \<Rightarrow> bool" where
  "offered p (Effect env cam) = True"
| "offered p (SelectApiKey env) = (\<not> isInitializing p \<and> apiKeyRequired p)"
| "offered p (TakePhoto context imageData) =
     (\<not> isInitializing p \<and> \<not> apiKeyRequired p \<and> \<not> loading p \<and>
      \<not> present (capturedImage p) \<and> cameraEnabled p)"
| "offered p (Upload file) =
     (\<not> isInitializing p \<and> \<not> apiKeyRequired p \<and> \<not> loading p \<and> \<not> present (capturedImage p))"
| "offered p (Analyze env) =
     (\<not> isInitializing p \<and> \<not> apiKeyRequired p \<and> \<not> loading p \<and> present (capturedImage p))"
| "offered p (Retake cam) =
     (\<not> isInitializing p \<and> \<not> apiKeyRequired p \<and> \<not> loading p \<and> present (capturedImage p))"
| "offered p NavigateAway = True"

fun handle :: "event \<Rightarrow> world \<Rightarrow> world" where
  "handle (Effect env cam) w = runEffect env cam w"
| "handle (SelectApiKey env) w = handleSelectApiKey env w"
| "handle (TakePhoto context imageData) w = captureImage context imageData w"
| "handle (Upload file) w = handleFileChange file w"
| "handle (Analyze env) w = handleAnalyze env w"
| "handle (Retake cam) w = retakePhoto cam w"
| "handle NavigateAway w = unmount w"

definition step :: "world \<Rightarrow> event \<Rightarrow> world" where
  "step w e = (if mounted w \<and> offered (page w) e then handle e w else w)"

text \<open>
  Mounting: the initial values of the state variables, and the first run of the effect.
\<close>

definition mount :: "env \<Rightarrow> camera \<Rightarrow> state \<Rightarrow> world" where
  "mount env cam sv =
     init env cam
       \<lparr>page = \<lparr>loading = False, isInitializing = True, stream = None, capturedImage = None,
                 imageMimeType = None, apiKeyRequired = False, cameraEnabled = False,
                 cameraUnavailable = False\<rparr>,
        service = sv, mounted = True, acquired = 0, stopped = [], effectStream = None\<rparr>"

definition run :: "env \<Rightarrow> camera \<Rightarrow> state \<Rightarrow> event list \<Rightarrow> world" where
  "run env cam sv events = foldl step (mount env cam sv) events"

text \<open>
  No stream is held by the state, the camera is not enabled, and no track was ever
  stopped.
\<close>

definition cameraNeverStored :: "world \<Rightarrow> bool" where
  "cameraNeverStored w =
     (stream (page w) = None \<and> \<not> cameraEnabled (page w) \<and> stopped w = [] \<and>
      effectStream w = None)"

section \<open>A reference \<open>JSON.parse\<close>\<close>

text \<open>
  \<open>JSON.parse\<close> is the engine's. The pipeline takes it from the environment, and what is
  proved of the pipeline holds for every parser. To run the pipeline on concrete texts,
  this is a parser of the JSON grammar (ECMA-404): white space, the three literals,
  numbers (kept as their exact decimal value, where the engine rounds to a double),
  strings with their escapes, arrays, and objects in which a repeated name keeps its
  place and takes the later value. The recursion is on a fuel that is spent once per
  call and set to twice the length of the text, which is enough for every text
  (\<open>JSON_parse_ref_fuel\<close> below).
\<close>

datatype presult = OutOfFuel | SyntaxError | Parsed json jsstring

definition isJsonWs :: "jschar \<Rightarrow> bool" where
  "isJsonWs c = (c = 0x20 \<or> c = 0x09 \<or> c = 0x0A \<or> c = 0x0D)"

definition skipWs :: "jsstring \<Rightarrow> jsstring" where
  "skipWs s = dropWhile isJsonWs s"

definition isDigit :: "jschar \<Rightarrow> bool" where
  "isDigit c = (0x30 \<le> c \<and> c \<le> 0x39)"

definition hexValue :: "jschar \<Rightarrow> nat option" where
  "hexValue c =
     (if 0x30 \<le> c \<and> c \<le> 0x39 then Some (c - 0x30)
      else if 0x41 \<le> c \<and> c \<le> 0x46 then Some (c - 0x41 + 10)
      else if 0x61 \<le> c \<and> c \<le> 0x66 then Some (c - 0x61 + 10)
      else None)"

definition unescape :: "jschar \<Rightarrow> jschar option" where
  "unescape c =
     (if c = 0x22 \<or> c = 0x5C \<or> c = 0x2F then Some c
      else if c = 0x62 then Some 0x08
      else if c = 0x66 then Some 0x0C
      else if c = 0x6E then Some 0x0A
      else if c = 0x72 then Some 0x0D
      else if c = 0x74 then Some 0x09
      else None)"

fun parseString :: "jsstring \<Rightarrow> jsstring \<Rightarrow> (jsstring \<times> jsstring) option" where
  "parseString acc [] = None"
| "parseString acc (c # r) =
     (if c = 0x22 then Some (acc, r)
      else if c = 0x5C then
        (case r of
           [] \<Rightarrow> None
         | e # r1 \<Rightarrow>
             if e = 0x75 then
               (case r1 of
                  h1 # h2 # h3 # h4 # r2 \<Rightarrow>
                    (case (hexValue h1, hexValue h2, hexValue h3, hexValue h4) of
                       (Some a, Some b, Some c, Some d) \<Rightarrow>
                         parseString (acc @ [((a * 16 + b) * 16 + c) * 16 + d]) r2
                     | _ \<Rightarrow> None)
                | _ \<Rightarrow> None)
             else
               (case unescape e of
                  None \<Rightarrow> None
                | Some u \<Rightarrow> parseString (acc @ [u]) r1))
      else if c < 0x20 then None
      else parseString (acc @ [c]) r)"

definition digitsValue :: "jsstring \<Rightarrow> nat" where
  "digitsValue ds = foldl (\<lambda>a d. 10 * a + (d - 0x30)) 0 ds"

definition scale10 :: "nat \<Rightarrow> int \<Rightarrow> real" where
  "scale10 m e = (if 0 \<le> e then of_nat m * 10 ^ nat e else of_nat m / 10 ^ nat (- e))"

text \<open>
  A number: an optional minus sign, digits with no leading zero, an optional fraction,
  an optional exponent.
\<close>

definition dropSign :: "jsstring \<Rightarrow> bool \<times> jsstring" where
  "dropSign s =
     (case s of [] \<Rightarrow> (False, s) | c # r \<Rightarrow> if c = 0x2D then (True, r) else (False, s))"

definition parseFraction :: "jsstring \<Rightarrow> (jsstring \<times> jsstring) option" where
  "parseFraction s =
     (case s of
        [] \<Rightarrow> Some ([], s)
      | c # r \<Rightarrow>
          if c = 0x2E then
            (if takeWhile isDigit r = [] then None
             else Some (takeWhile isDigit r, dropWhile isDigit r))
          else Some ([], s))"

definition parseExponent :: "jsstring \<Rightarrow> (int \<times> jsstring) option" where
  "parseExponent s =
     (case s of
        [] \<Rightarrow> Some (0, s)
      | c # r \<Rightarrow>
          if c = 0x65 \<or> c = 0x45 then
            (let (eneg, r1) =
                   (case r of
                      [] \<Rightarrow> (False, r)
                    | g # r0 \<Rightarrow>
                        if g = 0x2D then (True, r0)
                        else if g = 0x2B then (False, r0)
                        else (False, r));
                 es = takeWhile isDigit r1
             in if es = [] then None
                else Some (if eneg then - int (digitsValue es) else int (digitsValue es),
                           dropWhile isDigit r1))
          else Some (0, s))"

definition parseNumber :: "jsstring \<Rightarrow> (real \<times> jsstring) option" where
  "parseNumber s =
     (case dropSign s of
        (neg, s1) \<Rightarrow>
          (let ds = takeWhile isDigit s1 in
           if ds = [] \<or> (1 < length ds \<and> hd ds = 0x30) then None
           else case parseFraction (dropWhile isDigit s1) of
             None \<Rightarrow> None
           | Some (fs, s3) \<Rightarrow>
               (case parseExponent s3 of
                  None \<Rightarrow> None
                | Some (ex, s4) \<Rightarrow>
                    (let x = scale10 (digitsValue (ds @ fs)) (ex - int (length fs))
                     in Some (if neg then - x else x, s4)))))"

fun defineProperty :: "(jsstring \<times> json) list \<Rightarrow> jsstring \<Rightarrow> json \<Rightarrow> (jsstring \<times> json) list" where
  "defineProperty [] k v = [(k, v)]"
| "defineProperty ((k', v') # kvs) k v =
     (if k' = k then (k, v) # kvs else (k', v') # defineProperty kvs k v)"

fun parseValue :: "nat \<Rightarrow> jsstring \<Rightarrow> presult"
  and parseElements :: "nat \<Rightarrow> json list \<Rightarrow> jsstring \<Rightarrow> presult"
  and parseMembers :: "nat \<Rightarrow> (jsstring \<times> json) list \<Rightarrow> jsstring \<Rightarrow> presult" where
  "parseValue n s =
     (if n = 0 then OutOfFuel
      else case s of
        [] \<Rightarrow> SyntaxError
      | c # r \<Rightarrow>
          if c = 0x7B then
            (case skipWs r of
               [] \<Rightarrow> SyntaxError
             | d # r1 \<Rightarrow> if d = 0x7D then Parsed (JObject []) r1 else parseMembers (n - 1) [] (d # r1))
          else if c = 0x5B then
            (case skipWs r of
               [] \<Rightarrow> SyntaxError
             | d # r1 \<Rightarrow> if d = 0x5D then Parsed (JArray []) r1 else parseElements (n - 1) [] (d # r1))
          else if c = 0x22 then
            (case parseString [] r of
               None \<Rightarrow> SyntaxError
             | Some (str, r1) \<Rightarrow> Parsed (JString str) r1)
          else if startsWith s (js ''true'') then Parsed (JBool True) (drop 4 s)
          else if startsWith s (js ''false'') then Parsed (JBool False) (drop 5 s)
          else if startsWith s (js ''null'') then Parsed JNull (drop 4 s)
          else
            (case parseNumber s of
               None \<Rightarrow> SyntaxError
             | Some (x, r1) \<Rightarrow> Parsed (JNumber x) r1))"
| "parseElements n acc s =
     (if n = 0 then OutOfFuel
      else case parseValue (n - 1) s of
        OutOfFuel \<Rightarrow> OutOfFuel
      | SyntaxError \<Rightarrow> SyntaxError
      | Parsed v r \<Rightarrow>
          (case skipWs r of
             [] \<Rightarrow> SyntaxError
           | d # r1 \<Rightarrow>
               if d = 0x2C then parseElements (n - 1) (acc @ [v]) (skipWs r1)
               else if d = 0x5D then Parsed (JArray (acc @ [v])) r1
               else SyntaxError))"
| "parseMembers n acc s =
     (if n = 0 then OutOfFuel
      else case s of
        [] \<Rightarrow> SyntaxError
      | q # r \<Rightarrow>
          if q \<noteq> 0x22 then SyntaxError
          else
            (case parseString [] r of
               None \<Rightarrow> SyntaxError
             | Some (k, r1) \<Rightarrow>
                 (case skipWs r1 of
                    [] \<Rightarrow> SyntaxError
                  | d # r2 \<Rightarrow>
                      if d \<noteq> 0x3A then SyntaxError
                      else
                        (case parseValue (n - 1) (skipWs r2) of
                           OutOfFuel \<Rightarrow> OutOfFuel
                         | SyntaxError \<Rightarrow> SyntaxError
                         | Parsed v r3 \<Rightarrow>
                             (case skipWs r3 of
                                [] \<Rightarrow> SyntaxError
                              | g # r4 \<Rightarrow>
                                  if g = 0x2C then parseMembers (n - 1) (defineProperty acc k v) (skipWs r4)
                                  else if g = 0x7D then Parsed (JObject (defineProperty acc k v)) r4
                                  else SyntaxError)))))"

text \<open>
  The whole text is one value with white space around it. The message of a syntax error
  is the engine's own; here it is one fixed text, and running out of fuel is told apart
  from it.
\<close>

definition syntaxErrorMessage :: jsstring where
  "syntaxErrorMessage = js ''Unexpected token in JSON''"

definition outOfFuelMessage :: jsstring where
  "outOfFuelMessage = js ''out of fuel''"

definition JSON_parse_ref :: "jsstring \<Rightarrow> jsstring + json" where
  "JSON_parse_ref text =
     (case parseValue (2 * length text + 2) (skipWs text) of
        Parsed v r \<Rightarrow> if skipWs r = [] then Inr v else Inl syntaxErrorMessage
      | SyntaxError \<Rightarrow> Inl syntaxErrorMessage
      | OutOfFuel \<Rightarrow> Inl outOfFuelMessage)"

section \<open>Notions used in the statements\<close>

text \<open>
  The remote call answers with \<open>text\<close>, a credential is set, and the cleaned text is
  not empty and parses to \<open>parsedResult\<close>.
\<close>

definition parsesTo :: "env \<Rightarrow> jsstring \<Rightarrow> json \<Rightarrow> bool" where
  "parsesTo env text parsedResult =
     (isProcessEnvApiKeySet env \<and> generateContent env = Inr (Some text) \<and>
      trim text \<noteq> [] \<and> trim (stripFences (trim text)) \<noteq> [] \<and>
      JSON_parse env (trim (stripFences (trim text))) = Inr parsedResult)"

text \<open>The state after the one remote call of a run.\<close>

definition called :: "state \<Rightarrow> state" where
  "called st = st\<lparr>remoteCalls := remoteCalls st + 1\<rparr>"

text \<open>
  An issue entry that offends: it is missing, or its \<open>score\<close> is not a number, or its
  \<open>description\<close> (for \<open>symmetry\<close>) or its \<open>severity\<close> (for the others) is not a string.
\<close>

definition issueOffending :: "json \<Rightarrow> jsstring \<Rightarrow> bool" where
  "issueOffending issues key =
     (case getProp issues key of
        None \<Rightarrow> True
      | Some issue \<Rightarrow>
          typeof (getProp issue (js ''score'')) \<noteq> TNumber \<or>
          (if key = js ''symmetry'' then typeof (getProp issue (js ''description'')) \<noteq> TString
           else typeof (getProp issue (js ''severity'')) \<noteq> TString))"

text \<open>
  The interface \<open>SkinAnalysisResult\<close> of \<open>types.ts\<close>: what it is for a value to be of
  that type.
\<close>

definition conformsIssue :: "json option \<Rightarrow> bool" where
  "conformsIssue v =
     (case v of
        Some (JObject kvs) \<Rightarrow>
          typeof (map_of kvs (js ''score'')) = TNumber \<and>
          typeof (map_of kvs (js ''severity'')) = TString \<and>
          (map_of kvs (js ''areas'') = None \<or> everyString (map_of kvs (js ''areas'')))
      | _ \<Rightarrow> False)"

definition conformsSymmetry :: "json option \<Rightarrow> bool" where
  "conformsSymmetry v =
     (case v of
        Some (JObject kvs) \<Rightarrow>
          typeof (map_of kvs (js ''score'')) = TNumber \<and>
          typeof (map_of kvs (js ''description'')) = TString
      | _ \<Rightarrow> False)"

definition conformsSkinAnalysisResult :: "json \<Rightarrow> bool" where
  "conformsSkinAnalysisResult v =
     (case (v, getProp v (js ''issues''), getProp v (js ''recommendations'')) of
        (JObject kvs, Some (JObject issues), Some (JObject recommendations)) \<Rightarrow>
          typeof (map_of kvs (js ''overallScore'')) = TNumber \<and>
          array_includes skinTypes (map_of kvs (js ''skinType'')) \<and>
          array_includes fitzpatrickScales (map_of kvs (js ''fitzpatrickScale'')) \<and>
          list_all (\<lambda>k. conformsIssue (map_of issues k)) (butlast requiredIssueKeys) \<and>
          conformsSymmetry (map_of issues (js ''symmetry'')) \<and>
          list_all (\<lambda>k. everyString (map_of recommendations k)) requiredRecommendationKeys \<and>
          typeof (map_of kvs (js ''explainability'')) = TString
      | _ \<Rightarrow> False)"

text \<open>
  Assignment \<open>v[k] = x\<close> on an object, and the response with \<open>x\<close> as the \<open>areas\<close> of
  the issue entry \<open>key\<close>.
\<close>

fun setProp :: "json \<Rightarrow> jsstring \<Rightarrow> json \<Rightarrow> json" where
  "setProp (JObject kvs) k x = JObject (defineProperty kvs k x)"
| "setProp v k x = v"

definition setAreas :: "json \<Rightarrow> jsstring \<Rightarrow> json \<Rightarrow> json" where
  "setAreas parsedResult key x =
     (case getProp parsedResult (js ''issues'') of
        None \<Rightarrow> parsedResult
      | Some issues \<Rightarrow>
          (case getProp issues key of
             None \<Rightarrow> parsedResult
           | Some issue \<Rightarrow>
               setProp parsedResult (js ''issues'')
                 (setProp issues key (setProp issue (js ''areas'') x))))"

section \<open>Sample responses\<close>

text \<open>
  The text of a response is put together from the text of its first three members, of
  its \<open>issues\<close>, of its \<open>recommendations\<close> and of its \<open>explainability\<close>; the text of the
  issues from the text of the \<open>wrinkles\<close> entry. The value such a text parses to is put
  together in the same way.
\<close>

definition responseText :: "jsstring \<Rightarrow> jsstring \<Rightarrow> jsstring \<Rightarrow> jsstring \<Rightarrow> jsstring" where
  "responseText first issues recommendations explainability =
     js ''{'' @ first @ js '',\"issues\":'' @ issues @
     js '',\"recommendations\":'' @ recommendations @
     js '',\"explainability\":'' @ explainability @ js ''}''"

definition responseValue :: "(jsstring \<times> json) list \<Rightarrow> json \<Rightarrow> json \<Rightarrow> json \<Rightarrow> json" where
  "responseValue first issues recommendations explainability =
     JObject (first @ [(js ''issues'', issues), (js ''recommendations'', recommendations),
                     (js ''explainability'', explainability)])"

definition sampleTop :: jsstring where
  "sampleTop = js ''\"overallScore\":72,\"skinType\":\"oily\",\"fitzpatrickScale\":\"III\"''"

definition sampleTopValue :: "(jsstring \<times> json) list" where
  "sampleTopValue =
     [(js ''overallScore'', JNumber 72), (js ''skinType'', JString (js ''oily'')),
      (js ''fitzpatrickScale'', JString (js ''III''))]"

definition issuesText :: "jsstring \<Rightarrow> jsstring" where
  "issuesText wrinkles =
     js ''{\"acne\":{\"score\":40,\"severity\":\"moderate\",\"areas\":[\"chin\"]},'' @
     js ''\"wrinkles\":'' @ wrinkles @
     js '',\"hyperpigmentation\":{\"score\":20,\"severity\":\"low\"},'' @
     js ''\"pores\":{\"score\":55,\"severity\":\"medium\"},'' @
     js ''\"redness\":{\"score\":30,\"severity\":\"low\"},'' @
     js ''\"texture\":{\"score\":65,\"severity\":\"medium\"},'' @
     js ''\"hydration\":{\"score\":50,\"severity\":\"medium\"},'' @
     js ''\"oiliness\":{\"score\":80,\"severity\":\"high\"},'' @
     js ''\"darkCircles\":{\"score\":25,\"severity\":\"low\"},'' @
     js ''\"symmetry\":{\"score\":90,\"description\":\"balanced\"}}''"

definition issueEntry :: "real \<Rightarrow> string \<Rightarrow> json" where
  "issueEntry score severity =
     JObject [(js ''score'', JNumber score), (js ''severity'', JString (js severity))]"

definition issuesValue :: "json \<Rightarrow> json" where
  "issuesValue wrinkles =
     JObject
      [(js ''acne'',
        JObject [(js ''score'', JNumber 40), (js ''severity'', JString (js ''moderate'')),
                 (js ''areas'', JArray [JString (js ''chin'')])]),
       (js ''wrinkles'', wrinkles),
       (js ''hyperpigmentation'', issueEntry 20 ''low''),
       (js ''pores'', issueEntry 55 ''medium''),
       (js ''redness'', issueEntry 30 ''low''),
       (js ''texture'', issueEntry 65 ''medium''),
       (js ''hydration'', issueEntry 50 ''medium''),
       (js ''oiliness'', issueEntry 80 ''high''),
       (js ''darkCircles'', issueEntry 25 ''low''),
       (js ''symmetry'',
        JObject [(js ''score'', JNumber 90), (js ''description'', JString (js ''balanced''))])]"

definition sampleRecommendations :: jsstring where
  "sampleRecommendations =
     js ''{\"morningRoutine\":[\"cleanser\"],\"eveningRoutine\":[\"retinol\"],'' @
     js ''\"weeklyTreatments\":[\"mask\"],\"lifestyleTips\":[\"sleep\"]}''"

definition sampleRecommendationsValue :: json where
  "sampleRecommendationsValue =
     JObject
      [(js ''morningRoutine'', JArray [JString (js ''cleanser'')]),
       (js ''eveningRoutine'', JArray [JString (js ''retinol'')]),
       (js ''weeklyTreatments'', JArray [JString (js ''mask'')]),
       (js ''lifestyleTips'', JArray [JString (js ''sleep'')])]"

text \<open>
  The fully valid response: overallScore 72, skinType oily, fitzpatrickScale III, the
  ten issues, the four lists of recommendations.
\<close>

definition sampleText :: jsstring where
  "sampleText =
     responseText sampleTop (issuesText (js ''{\"score\":10,\"severity\":\"low\"}''))
       sampleRecommendations (js ''\"ok\"'')"

definition sampleResult :: json where
  "sampleResult =
     responseValue sampleTopValue (issuesValue (issueEntry 10 ''low''))
       sampleRecommendationsValue (JString (js ''ok''))"

text \<open>The same response with the empty string as its \<open>explainability\<close>.\<close>

definition emptyExplainText :: jsstring where
  "emptyExplainText =
     responseText sampleTop (issuesText (js ''{\"score\":10,\"severity\":\"low\"}''))
       sampleRecommendations (js ''\"\"'')"

definition emptyExplainResult :: json where
  "emptyExplainResult =
     responseValue sampleTopValue (issuesValue (issueEntry 10 ''low''))
       sampleRecommendationsValue (JString [])"

text \<open>The same response with a number as the \<open>areas\<close> of its \<open>wrinkles\<close> entry.\<close>

definition areasNumberText :: jsstring where
  "areasNumberText =
     responseText sampleTop (issuesText (js ''{\"score\":10,\"severity\":\"low\",\"areas\":5}''))
       sampleRecommendations (js ''\"ok\"'')"

text \<open>
  Short responses whose top-level members are of the right types but for one: a
  \<open>skinType\<close> outside the five values, and no \<open>overallScore\<close>.
\<close>

definition greasyText :: jsstring where
  "greasyText =
     responseText (js ''\"overallScore\":72,\"skinType\":\"greasy\",\"fitzpatrickScale\":\"III\"'')
       (js ''{}'') (js ''{}'') (js ''\"ok\"'')"

definition greasyResult :: json where
  "greasyResult =
     responseValue
       [(js ''overallScore'', JNumber 72), (js ''skinType'', JString (js ''greasy'')),
        (js ''fitzpatrickScale'', JString (js ''III''))]
       (JObject []) (JObject []) (JString (js ''ok''))"

definition noScoreText :: jsstring where
  "noScoreText =
     responseText (js ''\"skinType\":\"oily\",\"fitzpatrickScale\":\"III\"'')
       (js ''{}'') (js ''{}'') (js ''\"ok\"'')"

definition noScoreResult :: json where
  "noScoreResult =
     responseValue
       [(js ''skinType'', JString (js ''oily'')), (js ''fitzpatrickScale'', JString (js ''III''))]
       (JObject []) (JObject []) (JString (js ''ok''))"






text \<open>
  The valid response with the number 42 as its \<open>explainability\<close>, the short response
  with an empty array as its \<open>issues\<close>, and the valid response with an empty array as its
  \<open>recommendations\<close>.
\<close>

definition explainNumberText :: jsstring where
  "explainNumberText =
     responseText sampleTop (issuesText (js ''{\"score\":10,\"severity\":\"low\"}''))
       sampleRecommendations (js ''42'')"

definition explainNumberResult :: json where
  "explainNumberResult =
     responseValue sampleTopValue (issuesValue (issueEntry 10 ''low''))
       sampleRecommendationsValue (JNumber 42)"

definition issuesArrayText :: jsstring where
  "issuesArrayText = responseText sampleTop (js ''[]'') (js ''{}'') (js ''\"ok\"'')"

definition issuesArrayResult :: json where
  "issuesArrayResult = responseValue sampleTopValue (JArray []) (JObject []) (JString (js ''ok''))"

definition recommendationsArrayText :: jsstring where
  "recommendationsArrayText =
     responseText sampleTop (issuesText (js ''{\"score\":10,\"severity\":\"low\"}''))
       (js ''[]'') (js ''\"ok\"'')"

definition recommendationsArrayResult :: json where
  "recommendationsArrayResult =
     responseValue sampleTopValue (issuesValue (issueEntry 10 ''low''))
       (JArray []) (JString (js ''ok''))"

text \<open>The valid response and nothing at all, each between two plain fences.\<close>

definition plainFenced :: "jsstring \<Rightarrow> jsstring" where
  "plainFenced t = js ''```'' @ [0x0A] @ t @ [0x0A] @ js ''```''"

definition plainFencesOnly :: jsstring where
  "plainFencesOnly = js ''```'' @ [0x0A] @ js ''```''"

text \<open>
  An environment with a credential, no picker, the reference parser, and a remote call
  that answers with the given text; one with no credential and no picker; and two
  states to start from, with and without a selection made before.
\<close>

definition sampleEnv :: "jsstring \<Rightarrow> env" where
  "sampleEnv text =
     \<lparr>API_KEY = Some (js ''key''), window_aistudio = None,
      generateContent = Inr (Some text), JSON_parse = JSON_parse_ref\<rparr>"

definition noCredentialEnv :: env where
  "noCredentialEnv =
     \<lparr>API_KEY = None, window_aistudio = None,
      generateContent = Inr (Some sampleText), JSON_parse = JSON_parse_ref\<rparr>"

text \<open>
  An environment of the same kind whose remote call rejects with the given value, and
  two values it may reject with: the object \<open>{message: 404}\<close>, and an error of the network
  with its text.
\<close>

definition rejectingEnv :: "thrown \<Rightarrow> env" where
  "rejectingEnv e =
     \<lparr>API_KEY = Some (js ''key''), window_aistudio = None,
      generateContent = Inl e, JSON_parse = JSON_parse_ref\<rparr>"

definition numberMessage :: thrown where
  "numberMessage = Foreign (Some (JNumber 404)) 0"

definition failedToFetch :: thrown where
  "failedToFetch = Foreign (Some (JString (js ''Failed to fetch''))) 0"

definition st0 :: state where
  "st0 = \<lparr>hasUserSelectedApiKeyAssumeSuccess = True, remoteCalls = 0, pickerOpened = 0\<rparr>"

definition stNoSelection :: state where
  "stNoSelection =
     \<lparr>hasUserSelectedApiKeyAssumeSuccess = False, remoteCalls = 0, pickerOpened = 0\<rparr>"

section \<open>Errors of the validation pass the recovery procedure\<close>

text \<open>
  None of the messages the validation builds contains the letter q, which the signal
  \<open>Requested entity was not found.\<close> needs: the recovery procedure hands each of these
  errors back as it is.
\<close>

lemma str_includes_absent: "c \<in> set p \<Longrightarrow> c \<notin> set s \<Longrightarrow> \<not> str_includes s p"
proof (induction s)
  case Nil
  then show ?case by auto
next
  case (Cons a s)
  have "\<not> startsWith (a # s) p"
  proof
    assume "startsWith (a # s) p"
    then have "set p \<subseteq> set (a # s)"
      unfolding startsWith_def by (metis set_take_subset)
    with Cons.prems show False by auto
  qed
  with Cons show ?case by simp
qed

lemma q_in_signal: "0x71 \<in> set notFoundSignal"
  by (simp add: notFoundSignal_def js_def)

lemma no_q_no_match: "0x71 \<notin> set m \<Longrightarrow> messageTest (Error m) = Inr False"
  using str_includes_absent [OF q_in_signal] by simp

lemma handleApiKeyError_other:
  "messageTest error = Inr False \<Longrightarrow> handleApiKeyError env error st = (Inl error, st)"
  by (simp add: handleApiKeyError_def)

lemma handleApiKeyError_test_throws:
  "messageTest error = Inl e \<Longrightarrow> handleApiKeyError env error st = (Inl e, st)"
  by (simp add: handleApiKeyError_def)

lemma messageTest_throws_TypeError: "messageTest error = Inl e \<Longrightarrow> e = TypeError"
  by (erule messageTest.elims) (auto split: if_splits json.splits)

lemma handleApiKeyError_resets_on_signal_only:
  "hasUserSelectedApiKeyAssumeSuccess st \<Longrightarrow>
   \<not> hasUserSelectedApiKeyAssumeSuccess (snd (handleApiKeyError env error st)) \<Longrightarrow>
   messageTest error = Inr True"
  by (auto simp: handleApiKeyError_def split: sum.splits bool.splits)

lemma handleApiKeyError_string_message:
  "\<not> str_includes m notFoundSignal \<Longrightarrow>
   handleApiKeyError env (Foreign (Some (JString m)) x) st = (Inl (Foreign (Some (JString m)) x), st)"
  by (rule handleApiKeyError_other) simp

lemma msgEmpty_no_match: "messageTest (Error msgEmpty) = Inr False"
  by (rule no_q_no_match) (simp add: msgEmpty_def js_def)

lemma msgEmptyAfterCleaning_no_match: "messageTest (Error msgEmptyAfterCleaning) = Inr False"
  by (rule no_q_no_match) (simp add: msgEmptyAfterCleaning_def js_def)

lemma msgTopLevel_no_match: "messageTest (Error msgTopLevel) = Inr False"
  by (rule no_q_no_match) (simp add: msgTopLevel_def js_def)

lemma msgSymmetryDescription_no_match: "messageTest (Error msgSymmetryDescription) = Inr False"
  by (rule no_q_no_match) (simp add: msgSymmetryDescription_def js_def)

lemma issue_key_no_q: "key \<in> set requiredIssueKeys \<Longrightarrow> 0x71 \<notin> set key"
  by (auto simp: requiredIssueKeys_def js_def)

lemma recommendation_key_no_q: "key \<in> set requiredRecommendationKeys \<Longrightarrow> 0x71 \<notin> set key"
  by (auto simp: requiredRecommendationKeys_def js_def)

lemma msgIssueScore_no_match:
  "0x71 \<notin> set key \<Longrightarrow> messageTest (Error (msgIssueScore key)) = Inr False"
  by (rule no_q_no_match) (simp add: msgIssueScore_def js_def)

lemma msgIssueSeverity_no_match:
  "0x71 \<notin> set key \<Longrightarrow> messageTest (Error (msgIssueSeverity key)) = Inr False"
  by (rule no_q_no_match) (simp add: msgIssueSeverity_def js_def)

lemma msgRecommendation_no_match:
  "0x71 \<notin> set key \<Longrightarrow> messageTest (Error (msgRecommendation key)) = Inr False"
  by (rule no_q_no_match) (simp add: msgRecommendation_def js_def)

lemma checkIssues_no_match:
  "checkIssues issues keys = Some e \<Longrightarrow> list_all (\<lambda>k. 0x71 \<notin> set k) keys \<Longrightarrow>
   messageTest e = Inr False"
proof (induction keys)
  case Nil
  then show ?case by simp
next
  case (Cons key keys)
  then show ?case
    using msgIssueScore_no_match [of key] msgIssueSeverity_no_match [of key]
      msgSymmetryDescription_no_match
    by (auto split: option.splits if_splits)
qed

lemma checkRecommendations_no_match:
  "checkRecommendations recs keys = Some e \<Longrightarrow> list_all (\<lambda>k. 0x71 \<notin> set k) keys \<Longrightarrow>
   messageTest e = Inr False"
proof (induction keys)
  case Nil
  then show ?case by simp
next
  case (Cons key keys)
  then show ?case
    using msgRecommendation_no_match [of key]
    by (auto simp: Let_def split: if_splits)
qed

lemma issue_keys_no_q: "list_all (\<lambda>k. 0x71 \<notin> set k) requiredIssueKeys"
  by (simp add: requiredIssueKeys_def js_def)

lemma recommendation_keys_no_q: "list_all (\<lambda>k. 0x71 \<notin> set k) requiredRecommendationKeys"
  by (simp add: requiredRecommendationKeys_def js_def)

lemma topLevel_issues_object:
  "\<not> topLevelMalformed v \<Longrightarrow> \<exists>i r. getProp v (js ''issues'') = Some i \<and> getProp v (js ''recommendations'') = Some r"
  unfolding topLevelMalformed_def
  by (cases "getProp v (js ''issues'')"; cases "getProp v (js ''recommendations'')") auto

lemma validate_no_match: "validate v = Inl e \<Longrightarrow> messageTest e = Inr False"
proof (cases "topLevelMalformed v")
  case True
  assume "validate v = Inl e"
  with True show ?thesis
    using msgTopLevel_no_match by (auto simp: validate_def)
next
  case False
  assume a: "validate v = Inl e"
  from False obtain i r where ir: "getProp v (js ''issues'') = Some i"
    "getProp v (js ''recommendations'') = Some r"
    using topLevel_issues_object by blast
  from a False ir show ?thesis
    using checkIssues_no_match [OF _ issue_keys_no_q]
      checkRecommendations_no_match [OF _ recommendation_keys_no_q]
    by (auto simp: validate_def split: option.splits)
qed

lemma validate_topLevelMalformed:
  "topLevelMalformed v \<Longrightarrow> validate v = Inl (Error msgTopLevel)"
  by (simp add: validate_def)

lemma msgTopLevel_distinct:
  "msgTopLevel \<noteq> msgIssueScore key \<and> msgTopLevel \<noteq> msgIssueSeverity key \<and>
   msgTopLevel \<noteq> msgSymmetryDescription \<and> msgTopLevel \<noteq> msgRecommendation key"
  by (simp add: msgTopLevel_def msgIssueScore_def msgIssueSeverity_def
      msgSymmetryDescription_def msgRecommendation_def js_def)

lemma checkIssues_not_topLevel: "checkIssues issues keys = Some e \<Longrightarrow> e \<noteq> Error msgTopLevel"
proof (induction keys)
  case Nil
  then show ?case by simp
next
  case (Cons key keys)
  then show ?case
    using msgTopLevel_distinct [of key]
    by (auto split: option.splits if_splits)
qed

lemma checkRecommendations_not_topLevel:
  "checkRecommendations recs keys = Some e \<Longrightarrow> e \<noteq> Error msgTopLevel"
proof (induction keys)
  case Nil
  then show ?case by simp
next
  case (Cons key keys)
  then show ?case
    using msgTopLevel_distinct [of key]
    by (auto simp: Let_def split: if_splits)
qed

lemma validate_topLevel_only:
  "validate v = Inl (Error msgTopLevel) \<Longrightarrow> topLevelMalformed v"
proof (rule ccontr)
  assume a: "validate v = Inl (Error msgTopLevel)" and n: "\<not> topLevelMalformed v"
  from n obtain i r where ir: "getProp v (js ''issues'') = Some i"
    "getProp v (js ''recommendations'') = Some r"
    using topLevel_issues_object by blast
  from a n ir show False
    using checkIssues_not_topLevel [of i requiredIssueKeys]
      checkRecommendations_not_topLevel [of r requiredRecommendationKeys]
    by (auto simp: validate_def split: option.splits)
qed


lemma validate_Inr:
  "validate v = Inr r \<Longrightarrow>
   r = v \<and> \<not> topLevelMalformed v \<and>
   (\<exists>issues recs. getProp v (js ''issues'') = Some issues \<and>
      getProp v (js ''recommendations'') = Some recs \<and>
      checkIssues issues requiredIssueKeys = None \<and>
      checkRecommendations recs requiredRecommendationKeys = None)"
  by (auto simp: validate_def split: if_splits option.splits)

lemma analyzeSkinImage_parsesTo:
  "parsesTo env text v \<Longrightarrow> analyzeSkinImage env st = (validate v, called st)"
proof -
  assume p: "parsesTo env text v"
  then have hr: "handleResponse env (Some text) = validate v"
    by (simp add: parsesTo_def handleResponse_def Let_def)
  show ?thesis
  proof (cases "validate v")
    case (Inl e)
    then have "messageTest e = Inr False" by (rule validate_no_match)
    then have "handleApiKeyError env e (called st) = (Inl e, called st)"
      by (rule handleApiKeyError_other)
    with p hr Inl show ?thesis
      by (simp add: analyzeSkinImage_def parsesTo_def called_def)
  next
    case (Inr r)
    with p hr show ?thesis
      by (simp add: analyzeSkinImage_def parsesTo_def called_def)
  qed
qed

section \<open>Cleaning the text\<close>

lemma trim_id: "s \<noteq> [] \<Longrightarrow> \<not> isWhiteSpace (hd s) \<Longrightarrow> \<not> isWhiteSpace (last s) \<Longrightarrow> trim s = s"
proof -
  assume a: "s \<noteq> []" "\<not> isWhiteSpace (hd s)" "\<not> isWhiteSpace (last s)"
  then have 1: "dropWhile isWhiteSpace s = s"
    by (cases s) auto
  from a have 2: "dropWhile isWhiteSpace (rev s) = rev s"
    by (cases "rev s") (auto simp: hd_rev)
  show ?thesis by (simp add: trim_def 1 2)
qed

lemma not_startsWith_hd: "p \<noteq> [] \<Longrightarrow> s \<noteq> [] \<Longrightarrow> hd s \<noteq> hd p \<Longrightarrow> \<not> startsWith s p"
  by (cases s; cases p) (auto simp: startsWith_def)

lemma not_endsWith_last: "p \<noteq> [] \<Longrightarrow> s \<noteq> [] \<Longrightarrow> last s \<noteq> last p \<Longrightarrow> \<not> endsWith s p"
proof
  assume a: "p \<noteq> []" "s \<noteq> []" "last s \<noteq> last p" and e: "endsWith s p"
  from e have "drop (length s - length p) s = p" by (simp add: endsWith_def)
  then have "last (drop (length s - length p) s) = last p" by simp
  moreover from e a have "length s - length p < length s"
    by (cases p) (auto simp: endsWith_def)
  ultimately have "last s = last p" by (simp add: last_drop)
  with a show False by simp
qed

lemma stripFences_id:
  "s \<noteq> [] \<Longrightarrow> hd s \<noteq> 0x60 \<Longrightarrow> last s \<noteq> 0x60 \<Longrightarrow> stripFences s = s"
proof -
  assume a: "s \<noteq> []" "hd s \<noteq> 0x60" "last s \<noteq> 0x60"
  have "\<not> startsWith s fenceJson"
    by (rule not_startsWith_hd) (use a in \<open>simp_all add: fenceJson_def js_def\<close>)
  moreover have "\<not> endsWith s fence"
    by (rule not_endsWith_last) (use a in \<open>simp_all add: fence_def js_def\<close>)
  ultimately show ?thesis by (simp add: stripFences_def)
qed

text \<open>
  A text that starts with an opening brace and ends with a closing one is left as it is
  by both trims and by the removal of the fences.
\<close>

lemma cleaned_braces:
  "s \<noteq> [] \<Longrightarrow> hd s = 0x7B \<Longrightarrow> last s = 0x7D \<Longrightarrow> trim s = s \<and> stripFences s = s"
proof -
  assume a: "s \<noteq> []" "hd s = 0x7B" "last s = 0x7D"
  then have t: "trim s = s"
    by (intro trim_id) (simp_all add: isWhiteSpace_def)
  from a have "stripFences s = s"
    by (intro stripFences_id) simp_all
  with t show ?thesis by simp
qed

lemma dropWhile_all: "list_all P s \<Longrightarrow> dropWhile P s = []"
  by (induction s) auto

lemma trim_ws: "list_all isWhiteSpace s \<Longrightarrow> trim s = []"
  by (simp add: trim_def dropWhile_all)

lemma trim_ws_around:
  assumes "list_all isWhiteSpace w1" and "list_all isWhiteSpace w2"
  shows "trim (w1 @ s @ w2) = trim s"
proof (cases "list_all isWhiteSpace s")
  case True
  with assms have "list_all isWhiteSpace (w1 @ s @ w2)" by simp
  then have "trim (w1 @ s @ w2) = []" by (rule trim_ws)
  with True show ?thesis by (simp only: trim_ws)
next
  case False
  then obtain x where x: "x \<in> set s" "\<not> isWhiteSpace x"
    by (auto simp: list_all_iff)
  have "dropWhile isWhiteSpace (w1 @ s @ w2) = dropWhile isWhiteSpace (s @ w2)"
    by (rule dropWhile_append2) (use assms(1) in \<open>simp add: list_all_iff\<close>)
  also have "\<dots> = dropWhile isWhiteSpace s @ w2"
    using x by (simp add: dropWhile_append1)
  finally have 1: "rev (dropWhile isWhiteSpace (w1 @ s @ w2)) =
      rev w2 @ rev (dropWhile isWhiteSpace s)"
    by simp
  have "dropWhile isWhiteSpace (rev w2 @ rev (dropWhile isWhiteSpace s)) =
      dropWhile isWhiteSpace (rev (dropWhile isWhiteSpace s))"
    by (rule dropWhile_append2) (use assms(2) in \<open>simp add: list_all_iff\<close>)
  with 1 show ?thesis by (simp only: trim_def)
qed

lemma startsWith_append: "startsWith (p @ s) p"
  by (simp add: startsWith_def)

lemma endsWith_append: "endsWith (s @ p) p"
  by (simp add: endsWith_def)

lemma stripFences_json_fenced:
  "stripFences (fenceJson @ s @ fence) = s"
proof -
  have "endsWith (s @ fence) fence" by (rule endsWith_append)
  then show ?thesis
    using startsWith_append [of fenceJson "s @ fence"]
    by (simp add: stripFences_def)
qed

lemma handleResponse_cleaned:
  assumes "trim response \<noteq> []" and "trim (stripFences (trim response)) = c" and "c \<noteq> []"
  shows "handleResponse env (Some response) =
         (case JSON_parse env c of
            Inl m \<Rightarrow> Inl (Error (msgNotValidJSON m c))
          | Inr v \<Rightarrow> validate v)"
  using assms by (simp add: handleResponse_def Let_def)

text \<open>
  What does hold of the fences: a text that starts with an opening brace and ends with a
  closing one, put between \<open>```json\<close> and \<open>```\<close> with white space anywhere around, is
  cleaned to itself, and the pipeline does with the fenced text what it does with the
  text alone.
\<close>

lemma cleaned_json_fenced:
  assumes w: "list_all isWhiteSpace w1" "list_all isWhiteSpace w2" "list_all isWhiteSpace w3"
      "list_all isWhiteSpace w4"
    and t: "t \<noteq> []" "hd t = 0x7B" "last t = 0x7D"
  shows "trim (w1 @ (fenceJson @ (w2 @ t @ w3) @ fence) @ w4) = fenceJson @ (w2 @ t @ w3) @ fence"
    and "trim (stripFences (trim (w1 @ (fenceJson @ (w2 @ t @ w3) @ fence) @ w4))) = t"
proof -
  have f: "trim (fenceJson @ (w2 @ t @ w3) @ fence) = fenceJson @ (w2 @ t @ w3) @ fence"
    by (rule trim_id) (simp_all add: fenceJson_def fence_def js_def isWhiteSpace_def)
  have "trim (w1 @ (fenceJson @ (w2 @ t @ w3) @ fence) @ w4) =
        trim (fenceJson @ (w2 @ t @ w3) @ fence)"
    by (rule trim_ws_around [OF w(1) w(4)])
  with f show 1: "trim (w1 @ (fenceJson @ (w2 @ t @ w3) @ fence) @ w4) =
      fenceJson @ (w2 @ t @ w3) @ fence"
    by (simp only:)
  have "trim (w2 @ t @ w3) = trim t"
    by (rule trim_ws_around [OF w(2) w(3)])
  also have "\<dots> = t"
    using cleaned_braces [OF t] by simp
  finally show "trim (stripFences (trim (w1 @ (fenceJson @ (w2 @ t @ w3) @ fence) @ w4))) = t"
    by (simp only: 1 stripFences_json_fenced)
qed

lemma handleResponse_json_fenced:
  assumes w: "list_all isWhiteSpace w1" "list_all isWhiteSpace w2" "list_all isWhiteSpace w3"
      "list_all isWhiteSpace w4"
    and t: "t \<noteq> []" "hd t = 0x7B" "last t = 0x7D"
  shows "handleResponse env (Some (w1 @ (fenceJson @ (w2 @ t @ w3) @ fence) @ w4)) =
         handleResponse env (Some t)"
proof -
  have "fenceJson @ (w2 @ t @ w3) @ fence \<noteq> []"
    by (simp add: fenceJson_def js_def)
  then have a: "trim (w1 @ (fenceJson @ (w2 @ t @ w3) @ fence) @ w4) \<noteq> []"
    by (simp only: cleaned_json_fenced(1) [OF w t] not_False_eq_True)
  have b: "trim t \<noteq> []" "trim (stripFences (trim t)) = t"
    using cleaned_braces [OF t] t(1) by simp_all
  show ?thesis
    by (simp only: handleResponse_cleaned [OF a cleaned_json_fenced(2) [OF w t] t(1)]
        handleResponse_cleaned [OF b t(1)])
qed

lemma analyzeSkinImage_json_fenced:
  assumes w: "list_all isWhiteSpace w1" "list_all isWhiteSpace w2" "list_all isWhiteSpace w3"
      "list_all isWhiteSpace w4"
    and t: "t \<noteq> []" "hd t = 0x7B" "last t = 0x7D"
  shows "analyzeSkinImage
           (env\<lparr>generateContent := Inr (Some (w1 @ (fenceJson @ (w2 @ t @ w3) @ fence) @ w4))\<rparr>) st =
         analyzeSkinImage (env\<lparr>generateContent := Inr (Some t)\<rparr>) st"
proof -
  have h: "handleResponse (env\<lparr>generateContent := g\<rparr>) r = handleResponse env r" for g r
    by (cases r) (simp_all add: handleResponse_def Let_def)
  have k: "handleApiKeyError (env\<lparr>generateContent := g\<rparr>) e s = handleApiKeyError env e s" for g e s
    by (cases "window_aistudio env"; cases "messageTest e")
      (auto simp: handleApiKeyError_def isProcessEnvApiKeySet_def Let_def split: bool.splits)
  show ?thesis
    using handleResponse_json_fenced [OF w t, of env]
    by (simp add: analyzeSkinImage_def h k isProcessEnvApiKeySet_def Let_def split: sum.splits)
qed

text \<open>
  A text of white space alone, and a text that the cleaning leaves empty, fail with the
  two errors of an empty response.
\<close>

lemma analyzeSkinImage_white_space_only:
  assumes "isProcessEnvApiKeySet env" and "generateContent env = Inr (Some response)"
    and "list_all isWhiteSpace response"
  shows "analyzeSkinImage env st = (Inl (Error msgEmpty), called st)"
  using assms handleApiKeyError_other [OF msgEmpty_no_match]
  by (simp add: analyzeSkinImage_def handleResponse_def trim_ws called_def)

lemma analyzeSkinImage_empty_after_cleaning:
  assumes "isProcessEnvApiKeySet env" and "generateContent env = Inr (Some response)"
    and "trim response \<noteq> []" and "trim (stripFences (trim response)) = []"
  shows "analyzeSkinImage env st = (Inl (Error msgEmptyAfterCleaning), called st)"
  using assms handleApiKeyError_other [OF msgEmptyAfterCleaning_no_match]
  by (simp add: analyzeSkinImage_def handleResponse_def called_def Let_def)

lemma analyzeSkinImage_not_json:
  assumes "isProcessEnvApiKeySet env" and "generateContent env = Inr (Some response)"
    and "trim response \<noteq> []" and "trim (stripFences (trim response)) = c"
    and "c \<noteq> []" and "JSON_parse env c = Inl m" and "0x71 \<notin> set m" and "0x71 \<notin> set c"
  shows "analyzeSkinImage env st = (Inl (Error (msgNotValidJSON m c)), called st)"
proof -
  have "0x71 \<notin> set (msgNotValidJSON m c)"
    using assms(7,8) by (simp add: msgNotValidJSON_def js_def)
  then have "messageTest (Error (msgNotValidJSON m c)) = Inr False"
    by (rule no_q_no_match)
  from handleApiKeyError_other [OF this] assms(1-6) show ?thesis
    by (simp add: analyzeSkinImage_def handleResponse_def called_def Let_def)
qed

lemma plainFenced_cleaned:
  assumes t: "t \<noteq> []" "hd t = 0x7B" "last t = 0x7D"
  shows "trim (plainFenced t) = plainFenced t"
    and "trim (stripFences (trim (plainFenced t))) = fence @ [0x0A] @ t"
proof -
  show 1: "trim (plainFenced t) = plainFenced t"
    by (rule trim_id) (simp_all add: plainFenced_def js_def isWhiteSpace_def)
  have "\<not> startsWith (plainFenced t) fenceJson"
    by (simp add: startsWith_def plainFenced_def fenceJson_def js_def)
  moreover have "plainFenced t = (fence @ [0x0A] @ t @ [0x0A]) @ fence"
    by (simp add: plainFenced_def fence_def)
  ultimately have 2: "stripFences (plainFenced t) = fence @ [0x0A] @ t @ [0x0A]"
    using endsWith_append [of "fence @ [0x0A] @ t @ [0x0A]" fence]
    by (simp add: stripFences_def)
  have "trim (fence @ [0x0A] @ t @ [0x0A]) = trim ([] @ (fence @ [0x0A] @ t) @ [0x0A])"
    by simp
  also have "\<dots> = trim (fence @ [0x0A] @ t)"
    by (rule trim_ws_around) (simp_all add: isWhiteSpace_def)
  also have "\<dots> = fence @ [0x0A] @ t"
    by (rule trim_id) (use t in \<open>simp_all add: fence_def js_def isWhiteSpace_def\<close>)
  finally show "trim (stripFences (trim (plainFenced t))) = fence @ [0x0A] @ t"
    by (simp only: 1 2)
qed

section \<open>The checks of the issue entries\<close>

lemma typeof_number_truthy: "typeof (getProp issue k) = TNumber \<Longrightarrow> truthy (Some issue)"
  by (cases issue) auto

lemma checkIssues_skip:
  "list_all (\<lambda>k. \<not> issueOffending issues k) before \<Longrightarrow>
   checkIssues issues (before @ rest) = checkIssues issues rest"
proof (induction before)
  case Nil
  then show ?case by simp
next
  case (Cons k before)
  then show ?case
    using typeof_number_truthy [of _ "js ''score''"]
    by (auto simp: issueOffending_def split: option.splits if_splits)
qed


lemma checkIssues_Cons_None:
  "checkIssues issues (k # keys) = None \<Longrightarrow>
   \<not> issueOffending issues k \<and> checkIssues issues keys = None"
  by (auto simp: issueOffending_def split: option.splits if_splits)

lemma checkIssues_None:
  "checkIssues issues keys = None \<Longrightarrow> list_all (\<lambda>k. \<not> issueOffending issues k) keys"
proof (induction keys)
  case Nil
  then show ?case by simp
next
  case (Cons k keys)
  from checkIssues_Cons_None [OF Cons.prems] Cons.IH show ?case by simp
qed

lemma checkIssues_all:
  "list_all (\<lambda>k. \<not> issueOffending issues k) keys \<Longrightarrow> checkIssues issues keys = None"
  using checkIssues_skip [of issues keys "[]"] by simp






lemma map_of_defineProperty:
  "map_of (defineProperty kvs k x) k' = (if k' = k then Some x else map_of kvs k')"
  by (induction kvs) auto

lemma getProp_setProp:
  "getProp (setProp (JObject kvs) k x) k' = (if k' = k then Some x else getProp (JObject kvs) k')"
  by (simp add: map_of_defineProperty)

lemma getProp_Some_object: "getProp v k = Some x \<Longrightarrow> \<exists>kvs. v = JObject kvs"
  by (cases v) auto

lemma typeof_number_object: "typeof (getProp v k) = TNumber \<Longrightarrow> \<exists>kvs. v = JObject kvs"
  by (cases v) auto

lemma checkRecommendations_cong:
  "list_all (\<lambda>k. getProp r k = getProp r' k) keys \<Longrightarrow>
   checkRecommendations r keys = (checkRecommendations r' keys :: thrown option)"
  by (induction keys) (auto simp: Let_def)

lemma symmetry_not_butlast: "key \<in> set (butlast requiredIssueKeys) \<Longrightarrow> key \<noteq> js ''symmetry''"
  by (auto simp: requiredIssueKeys_def js_def)

lemma setAreas_issue_ok:
  "\<not> issueOffending (JObject ikvs) k \<Longrightarrow> key \<noteq> js ''symmetry'' \<Longrightarrow>
   map_of ikvs key = Some (JObject ekvs) \<Longrightarrow>
   \<not> issueOffending
       (JObject (defineProperty ikvs key (JObject (defineProperty ekvs (js ''areas'') x)))) k"
  by (auto simp: issueOffending_def map_of_defineProperty js_def split: option.splits if_splits)

lemma validate_setAreas:
  assumes v: "validate v = Inr v" and key: "key \<in> set (butlast requiredIssueKeys)"
  shows "validate (setAreas v key x) = Inr (setAreas v key x) \<and>
    (\<exists>issues issue. getProp (setAreas v key x) (js ''issues'') = Some issues \<and>
       getProp issues key = Some issue \<and> getProp issue (js ''areas'') = Some x)"
proof -
  from validate_Inr [OF v] obtain issues recs where
    t: "\<not> topLevelMalformed v"
    and i: "getProp v (js ''issues'') = Some issues"
    and r: "getProp v (js ''recommendations'') = Some recs"
    and ci: "checkIssues issues requiredIssueKeys = None"
    and cr: "checkRecommendations recs requiredRecommendationKeys = (None :: thrown option)"
    by blast
  from i obtain kvs where vo: "v = JObject kvs"
    using getProp_Some_object by blast
  have ok: "list_all (\<lambda>k. \<not> issueOffending issues k) requiredIssueKeys"
    using checkIssues_None [OF ci] .
  from key have kin: "key \<in> set requiredIssueKeys"
    by (meson in_set_butlastD)
  with ok have nk: "\<not> issueOffending issues key"
    by (simp add: list_all_iff)
  then obtain issue where e: "getProp issues key = Some issue"
    and sc: "typeof (getProp issue (js ''score'')) = TNumber"
    by (auto simp: issueOffending_def split: option.splits)
  from e obtain ikvs where io: "issues = JObject ikvs"
    using getProp_Some_object by blast
  from sc obtain ekvs where eo: "issue = JObject ekvs"
    using typeof_number_object by blast
  have ns: "key \<noteq> js ''symmetry''"
    using symmetry_not_butlast [OF key] .
  define issues' where
    "issues' = JObject (defineProperty ikvs key (JObject (defineProperty ekvs (js ''areas'') x)))"
  have sa: "setAreas v key x = JObject (defineProperty kvs (js ''issues'') issues')"
    using i e by (simp add: setAreas_def vo io eo issues'_def)
  have t': "\<not> topLevelMalformed (setAreas v key x)"
    using t i unfolding sa topLevelMalformed_def
    by (simp add: vo map_of_defineProperty issues'_def js_def)
  have ok': "list_all (\<lambda>k. \<not> issueOffending issues' k) requiredIssueKeys"
    unfolding list_all_iff
  proof
    fix k assume "k \<in> set requiredIssueKeys"
    with ok have "\<not> issueOffending (JObject ikvs) k"
      by (simp add: list_all_iff io)
    then show "\<not> issueOffending issues' k"
      unfolding issues'_def using ns e
      by (intro setAreas_issue_ok) (simp_all add: io eo)
  qed
  have gi: "getProp (setAreas v key x) (js ''issues'') = Some issues'"
    by (simp add: sa map_of_defineProperty)
  have gr: "getProp (setAreas v key x) (js ''recommendations'') = Some recs"
    using r unfolding sa by (simp add: vo map_of_defineProperty js_def)
  have 1: "validate (setAreas v key x) = Inr (setAreas v key x)"
    using t' gi gr checkIssues_all [OF ok'] cr by (simp add: validate_def)
  have 2: "getProp issues' key = Some (JObject (defineProperty ekvs (js ''areas'') x)) \<and>
    getProp (JObject (defineProperty ekvs (js ''areas'') x)) (js ''areas'') = Some x"
    by (simp add: issues'_def map_of_defineProperty)
  from 1 2 gi show ?thesis by blast
qed

section \<open>The sample responses\<close>

lemma responseText_braces:
  "responseText t i r e \<noteq> [] \<and> hd (responseText t i r e) = 0x7B \<and>
   last (responseText t i r e) = 0x7D"
  by (simp add: responseText_def js_def)

lemma responseText_cleaned:
  "trim (responseText t i r e) = responseText t i r e \<and>
   stripFences (responseText t i r e) = responseText t i r e"
  using responseText_braces cleaned_braces by blast

lemma parsesTo_sampleEnv:
  "JSON_parse_ref (responseText t i r e) = Inr v \<Longrightarrow>
   parsesTo (sampleEnv (responseText t i r e)) (responseText t i r e) v"
  using responseText_braces [of t i r e]
  by (simp add: parsesTo_def sampleEnv_def isProcessEnvApiKeySet_def js_def responseText_cleaned)

lemmas parser_simps =
  JSON_parse_ref_def js_def skipWs_def isJsonWs_def startsWith_def parseNumber_def dropSign_def
  parseFraction_def parseExponent_def isDigit_def digitsValue_def scale10_def unescape_def
  hexValue_def

lemmas sample_simps =
  responseText_def responseValue_def sampleTop_def sampleTopValue_def issuesText_def issuesValue_def
  issueEntry_def sampleRecommendations_def sampleRecommendationsValue_def

lemma parse_sample: "JSON_parse_ref sampleText = Inr sampleResult"
  by (simp add: parser_simps sample_simps sampleText_def sampleResult_def)

lemma parsesTo_sample: "parsesTo (sampleEnv sampleText) sampleText sampleResult"
  using parsesTo_sampleEnv parse_sample unfolding sampleText_def by blast

lemma validate_sample: "validate sampleResult = Inr sampleResult"
  by (simp add: validate_def topLevelMalformed_def sampleResult_def sample_simps
      requiredIssueKeys_def requiredRecommendationKeys_def skinTypes_def fitzpatrickScales_def js_def)

lemma sampleText_no_q: "0x71 \<notin> set sampleText"
  by (simp add: sampleText_def sample_simps js_def)

lemma parse_emptyExplain: "JSON_parse_ref emptyExplainText = Inr emptyExplainResult"
  by (simp add: parser_simps sample_simps emptyExplainText_def emptyExplainResult_def)

lemma parsesTo_emptyExplain:
  "parsesTo (sampleEnv emptyExplainText) emptyExplainText emptyExplainResult"
  using parsesTo_sampleEnv parse_emptyExplain unfolding emptyExplainText_def by blast

lemma parse_areasNumber:
  "JSON_parse_ref areasNumberText = Inr (setAreas sampleResult (js ''wrinkles'') (JNumber 5))"
  by (simp add: parser_simps sample_simps areasNumberText_def sampleResult_def setAreas_def)

lemma parsesTo_areasNumber:
  "parsesTo (sampleEnv areasNumberText) areasNumberText
     (setAreas sampleResult (js ''wrinkles'') (JNumber 5))"
  using parsesTo_sampleEnv parse_areasNumber unfolding areasNumberText_def by blast

lemma parse_greasy: "JSON_parse_ref greasyText = Inr greasyResult"
  by (simp add: parser_simps sample_simps greasyText_def greasyResult_def)

lemma parsesTo_greasy: "parsesTo (sampleEnv greasyText) greasyText greasyResult"
  using parsesTo_sampleEnv parse_greasy unfolding greasyText_def by blast

lemma parse_noScore: "JSON_parse_ref noScoreText = Inr noScoreResult"
  by (simp add: parser_simps sample_simps noScoreText_def noScoreResult_def)

lemma parsesTo_noScore: "parsesTo (sampleEnv noScoreText) noScoreText noScoreResult"
  using parsesTo_sampleEnv parse_noScore unfolding noScoreText_def by blast






lemma parse_explainNumber: "JSON_parse_ref explainNumberText = Inr explainNumberResult"
  by (simp add: parser_simps sample_simps explainNumberText_def explainNumberResult_def)

lemma parsesTo_explainNumber:
  "parsesTo (sampleEnv explainNumberText) explainNumberText explainNumberResult"
  using parsesTo_sampleEnv parse_explainNumber unfolding explainNumberText_def by blast

lemma validate_explainNumber: "validate explainNumberResult = Inr explainNumberResult"
  by (simp add: validate_def topLevelMalformed_def explainNumberResult_def sample_simps
      requiredIssueKeys_def requiredRecommendationKeys_def skinTypes_def fitzpatrickScales_def js_def)

lemma parse_issuesArray: "JSON_parse_ref issuesArrayText = Inr issuesArrayResult"
  by (simp add: parser_simps sample_simps issuesArrayText_def issuesArrayResult_def)

lemma parsesTo_issuesArray:
  "parsesTo (sampleEnv issuesArrayText) issuesArrayText issuesArrayResult"
  using parsesTo_sampleEnv parse_issuesArray unfolding issuesArrayText_def by blast

lemma validate_issuesArray:
  "validate issuesArrayResult = Inl (Error (msgIssueScore (js ''acne'')))"
  by (simp add: validate_def topLevelMalformed_def issuesArrayResult_def sample_simps
      requiredIssueKeys_def skinTypes_def fitzpatrickScales_def js_def)

lemma parse_recommendationsArray:
  "JSON_parse_ref recommendationsArrayText = Inr recommendationsArrayResult"
  by (simp add: parser_simps sample_simps recommendationsArrayText_def
      recommendationsArrayResult_def)

lemma parsesTo_recommendationsArray:
  "parsesTo (sampleEnv recommendationsArrayText) recommendationsArrayText
     recommendationsArrayResult"
  using parsesTo_sampleEnv parse_recommendationsArray unfolding recommendationsArrayText_def
  by blast

lemma validate_recommendationsArray:
  "validate recommendationsArrayResult = Inl (Error (msgRecommendation (js ''morningRoutine'')))"
  by (simp add: validate_def topLevelMalformed_def recommendationsArrayResult_def sample_simps
      requiredIssueKeys_def requiredRecommendationKeys_def skinTypes_def fitzpatrickScales_def
      js_def)

lemma parse_backtick: "JSON_parse_ref (0x60 # r) = Inl syntaxErrorMessage"
  by (simp add: parser_simps)

lemma analyzeSkinImage_json_fences_only:
  "analyzeSkinImage (sampleEnv (fenceJson @ [0x0A] @ fence)) st0 =
     (Inl (Error msgEmptyAfterCleaning), called st0)"
proof -
  have 1: "trim (fenceJson @ [0x0A] @ fence) = fenceJson @ [0x0A] @ fence"
    by (rule trim_id) (simp_all add: fenceJson_def fence_def js_def isWhiteSpace_def)
  have "stripFences (fenceJson @ [0x0A] @ fence) = [0x0A]"
    by (rule stripFences_json_fenced)
  moreover have "trim [0x0A] = []"
    by (simp add: trim_def isWhiteSpace_def)
  ultimately have 2: "trim (stripFences (fenceJson @ [0x0A] @ fence)) = []"
    by (simp only:)
  have 3: "fenceJson @ [0x0A] @ fence \<noteq> []"
    by simp
  show ?thesis
    by (rule analyzeSkinImage_empty_after_cleaning [where response = "fenceJson @ [0x0A] @ fence"])
      (simp_all only: 1 2 3 not_False_eq_True, simp_all add: sampleEnv_def isProcessEnvApiKeySet_def js_def)
qed

section \<open>The reference parser does not run out of fuel\<close>

text \<open>
  Every part of the parser that returns a value has consumed some of the text, so that
  the calls made on a text are fewer than twice its length. The equations of the three
  functions are unfolded by hand from here on.
\<close>

declare parseValue.simps [simp del] parseElements.simps [simp del] parseMembers.simps [simp del]

lemma skipWs_length: "length (skipWs s) \<le> length s"
  by (simp add: skipWs_def length_dropWhile_le)

lemma skipWs_Cons_length: "skipWs s = d # r \<Longrightarrow> length r < length s"
  using skipWs_length [of s] by simp

lemma parseString_shorter: "parseString acc s = Some (str, r) \<Longrightarrow> length r < length s"
proof (induction acc s rule: parseString.induct)
  case (1 acc)
  then show ?case by simp
next
  case (2 acc c r0)
  then show ?case
    by (auto split: if_splits list.splits option.splits prod.splits simp: less_Suc_eq)
qed

lemma dropWhile_shorter: "takeWhile P s \<noteq> [] \<Longrightarrow> length (dropWhile P s) < length s"
  by (cases s) (auto simp: le_imp_less_Suc length_dropWhile_le split: if_splits)

lemma dropSign_length: "dropSign s = (neg, r) \<Longrightarrow> length r \<le> length s"
  by (auto simp: dropSign_def split: list.splits if_splits)

lemma parseFraction_length: "parseFraction s = Some (fs, r) \<Longrightarrow> length r \<le> length s"
  by (auto simp: parseFraction_def le_SucI length_dropWhile_le split: list.splits if_splits)

lemma parseExponent_length: "parseExponent s = Some (ex, r) \<Longrightarrow> length r \<le> length s"
proof (cases s)
  case Nil
  assume "parseExponent s = Some (ex, r)"
  with Nil show ?thesis by (simp add: parseExponent_def)
next
  case (Cons c t)
  assume a: "parseExponent s = Some (ex, r)"
  show ?thesis
  proof (cases "c = 0x65 \<or> c = 0x45")
    case False
    with a Cons show ?thesis by (simp add: parseExponent_def)
  next
    case True
    define r1 where "r1 = (case t of [] \<Rightarrow> t
        | g # r0 \<Rightarrow> if g = 0x2D then r0 else if g = 0x2B then r0 else t)"
    have 1: "length r1 \<le> length t"
      by (auto simp: r1_def split: list.splits)
    from a Cons True have "r = dropWhile isDigit r1"
      by (cases t) (auto simp: parseExponent_def r1_def Let_def split: if_splits)
    with 1 Cons show ?thesis
      using length_dropWhile_le [of isDigit r1] by simp
  qed
qed

lemma parseNumber_shorter: "parseNumber s = Some (x, r) \<Longrightarrow> length r < length s"
proof -
  assume a: "parseNumber s = Some (x, r)"
  obtain neg s1 where s: "dropSign s = (neg, s1)"
    by (cases "dropSign s")
  from a s have d: "takeWhile isDigit s1 \<noteq> []"
    by (auto simp: parseNumber_def Let_def split: if_splits)
  from a s d obtain fs s3 where f: "parseFraction (dropWhile isDigit s1) = Some (fs, s3)"
    by (cases "parseFraction (dropWhile isDigit s1)") (auto simp: parseNumber_def Let_def split: if_splits)
  from a s d f obtain ex where e: "parseExponent s3 = Some (ex, r)"
    by (cases "parseExponent s3") (auto simp: parseNumber_def Let_def split: if_splits)
  from dropSign_length [OF s] dropWhile_shorter [OF d] parseFraction_length [OF f]
    parseExponent_length [OF e]
  show ?thesis by simp
qed

lemma startsWith_drop_shorter:
  "startsWith s p \<Longrightarrow> p \<noteq> [] \<Longrightarrow> length (drop (length p) s) < length s"
  by (cases s) (auto simp: startsWith_def)

lemma parseValue_step:
  assumes E0: "\<forall>acc s v r. parseElements n acc s = Parsed v r \<longrightarrow> length r < length s"
    and M0: "\<forall>kvs s v r. parseMembers n kvs s = Parsed v r \<longrightarrow> length r < length s"
    and P: "parseValue (Suc n) s = Parsed v r"
  shows "length r < length s"
proof (cases s)
  case Nil
  with P show ?thesis by (simp add: parseValue.simps)
next
  case (Cons c r0)
  note E = E0 [rule_format] and M = M0 [rule_format]
  consider (obj) "c = 0x7B" | (arr) "c \<noteq> 0x7B" "c = 0x5B" | (str) "c \<noteq> 0x7B" "c \<noteq> 0x5B" "c = 0x22"
    | (other) "c \<noteq> 0x7B" "c \<noteq> 0x5B" "c \<noteq> 0x22"
    by blast
  then show ?thesis
  proof cases
    case obj
    show ?thesis
    proof (cases "skipWs r0")
      case Nil
      with P Cons obj show ?thesis by (simp add: parseValue.simps)
    next
      case (Cons d r1)
      note sk = this
      show ?thesis
      proof (cases "d = 0x7D")
        case True
        with P \<open>s = c # r0\<close> obj sk have "r = r1" by (simp add: parseValue.simps)
        with skipWs_Cons_length [OF sk] \<open>s = c # r0\<close> show ?thesis by simp
      next
        case False
        with P \<open>s = c # r0\<close> obj sk have "parseMembers n [] (d # r1) = Parsed v r"
          by (simp add: parseValue.simps)
        from M [OF this] skipWs_Cons_length [OF sk] \<open>s = c # r0\<close> show ?thesis by simp
      qed
    qed
  next
    case arr
    show ?thesis
    proof (cases "skipWs r0")
      case Nil
      with P Cons arr show ?thesis by (simp add: parseValue.simps)
    next
      case (Cons d r1)
      note sk = this
      show ?thesis
      proof (cases "d = 0x5D")
        case True
        with P \<open>s = c # r0\<close> arr sk have "r = r1" by (simp add: parseValue.simps)
        with skipWs_Cons_length [OF sk] \<open>s = c # r0\<close> show ?thesis by simp
      next
        case False
        with P \<open>s = c # r0\<close> arr sk have "parseElements n [] (d # r1) = Parsed v r"
          by (simp add: parseValue.simps)
        from E [OF this] skipWs_Cons_length [OF sk] \<open>s = c # r0\<close> show ?thesis by simp
      qed
    qed
  next
    case str
    with P Cons obtain x where "parseString [] r0 = Some (x, r)"
      by (auto simp: parseValue.simps split: option.splits)
    from parseString_shorter [OF this] Cons show ?thesis by simp
  next
    case other
    with P Cons have
      "(startsWith s (js ''true'') \<and> r = drop 4 s) \<or>
       (startsWith s (js ''false'') \<and> r = drop 5 s) \<or>
       (startsWith s (js ''null'') \<and> r = drop 4 s) \<or>
       (\<exists>x. parseNumber s = Some (x, r))"
      by (auto simp: parseValue.simps split: if_splits option.splits)
    then show ?thesis
      using startsWith_drop_shorter [of s "js ''true''"] startsWith_drop_shorter [of s "js ''false''"]
        startsWith_drop_shorter [of s "js ''null''"] parseNumber_shorter [of s _ r]
      by (auto simp: js_def)
  qed
qed

lemma parseElements_step:
  assumes V0: "\<forall>s v r. parseValue n s = Parsed v r \<longrightarrow> length r < length s"
    and E0: "\<forall>acc s v r. parseElements n acc s = Parsed v r \<longrightarrow> length r < length s"
    and P: "parseElements (Suc n) acc s = Parsed v r"
  shows "length r < length s"
proof -
  note V = V0 [rule_format] and E = E0 [rule_format]
  from P obtain v1 r1 where 1: "parseValue n s = Parsed v1 r1"
    by (cases "parseValue n s") (auto simp: parseElements.simps)
  with P obtain d r2 where 2: "skipWs r1 = d # r2"
    by (cases "skipWs r1") (auto simp: parseElements.simps)
  from V [OF 1] skipWs_Cons_length [OF 2] have l: "length r2 < length s" by simp
  from P 1 2 consider "d = 0x2C" "parseElements n (acc @ [v1]) (skipWs r2) = Parsed v r"
    | "d = 0x5D" "r = r2"
    by (auto simp: parseElements.simps split: if_splits)
  then show ?thesis
  proof cases
    case 1
    from E [OF 1(2)] skipWs_length [of r2] l show ?thesis by simp
  next
    case 2
    with l show ?thesis by simp
  qed
qed

lemma parseMembers_step:
  assumes V0: "\<forall>s v r. parseValue n s = Parsed v r \<longrightarrow> length r < length s"
    and M0: "\<forall>kvs s v r. parseMembers n kvs s = Parsed v r \<longrightarrow> length r < length s"
    and P: "parseMembers (Suc n) kvs s = Parsed v r"
  shows "length r < length s"
proof -
  note V = V0 [rule_format] and M = M0 [rule_format]
  from P obtain r0 where 0: "s = 0x22 # r0"
    by (cases s) (auto simp: parseMembers.simps split: if_splits)
  with P obtain k r1 where 1: "parseString [] r0 = Some (k, r1)"
    by (cases "parseString [] r0") (auto simp: parseMembers.simps)
  with P 0 obtain r2 where 2: "skipWs r1 = 0x3A # r2"
    by (cases "skipWs r1") (auto simp: parseMembers.simps split: if_splits)
  with P 0 1 obtain v1 r3 where 3: "parseValue n (skipWs r2) = Parsed v1 r3"
    by (cases "parseValue n (skipWs r2)") (auto simp: parseMembers.simps)
  with P 0 1 2 obtain g r4 where 4: "skipWs r3 = g # r4"
    by (cases "skipWs r3") (auto simp: parseMembers.simps)
  from parseString_shorter [OF 1] skipWs_Cons_length [OF 2] V [OF 3] skipWs_length [of r2]
    skipWs_Cons_length [OF 4] 0
  have l: "length r4 < length s" by simp
  from P 0 1 2 3 4 consider
    "g = 0x2C" "parseMembers n (defineProperty kvs k v1) (skipWs r4) = Parsed v r"
    | "g = 0x7D" "r = r4"
    by (auto simp: parseMembers.simps split: if_splits)
  then show ?thesis
  proof cases
    case 1
    from M [OF 1(2)] skipWs_length [of r4] l show ?thesis by simp
  next
    case 2
    with l show ?thesis by simp
  qed
qed

lemma parser_progress:
  "(parseValue n s = Parsed v r \<longrightarrow> length r < length s) \<and>
   (parseElements n acc s = Parsed v r \<longrightarrow> length r < length s) \<and>
   (parseMembers n kvs s = Parsed v r \<longrightarrow> length r < length s)"
proof (induction n arbitrary: s acc kvs v r)
  case 0
  show ?case by (simp add: parseValue.simps parseElements.simps parseMembers.simps)
next
  case (Suc n)
  have V: "\<forall>s v r. parseValue n s = Parsed v r \<longrightarrow> length r < length s"
    using Suc.IH by blast
  have E: "\<forall>acc s v r. parseElements n acc s = Parsed v r \<longrightarrow> length r < length s"
    using Suc.IH by blast
  have M: "\<forall>kvs s v r. parseMembers n kvs s = Parsed v r \<longrightarrow> length r < length s"
    using Suc.IH by blast
  show ?case
  proof (intro conjI impI)
    assume "parseValue (Suc n) s = Parsed v r"
    then show "length r < length s" by (rule parseValue_step [OF E M])
  next
    assume "parseElements (Suc n) acc s = Parsed v r"
    then show "length r < length s" by (rule parseElements_step [OF V E])
  next
    assume "parseMembers (Suc n) kvs s = Parsed v r"
    then show "length r < length s" by (rule parseMembers_step [OF V M])
  qed
qed

lemma parseValue_shorter: "parseValue n s = Parsed v r \<Longrightarrow> length r < length s"
  using parser_progress by blast

text \<open>
  The fuel is enough: a call that has twice the length of its text, and one or two more,
  does not run out.
\<close>

lemma parser_fuel:
  "(2 * length s + 1 \<le> n \<longrightarrow> parseValue n s \<noteq> OutOfFuel) \<and>
   (2 * length s + 2 \<le> n \<longrightarrow> parseElements n acc s \<noteq> OutOfFuel) \<and>
   (2 * length s + 2 \<le> n \<longrightarrow> parseMembers n kvs s \<noteq> OutOfFuel)"
proof (induction n arbitrary: s acc kvs)
  case 0
  show ?case by simp
next
  case (Suc n)
  have V: "\<And>s. 2 * length s + 1 \<le> n \<Longrightarrow> parseValue n s \<noteq> OutOfFuel"
    using Suc.IH by blast
  have E: "\<And>acc s. 2 * length s + 2 \<le> n \<Longrightarrow> parseElements n acc s \<noteq> OutOfFuel"
    using Suc.IH by blast
  have M: "\<And>kvs s. 2 * length s + 2 \<le> n \<Longrightarrow> parseMembers n kvs s \<noteq> OutOfFuel"
    using Suc.IH by blast
  have 1: "parseValue (Suc n) s \<noteq> OutOfFuel" if b: "2 * length s + 1 \<le> Suc n"
  proof (cases s)
    case Nil
    then show ?thesis by (simp add: parseValue.simps)
  next
    case (Cons c r0)
    have "parseElements n [] (d # r1) \<noteq> OutOfFuel" "parseMembers n [] (d # r1) \<noteq> OutOfFuel"
      if "skipWs r0 = d # r1" for d r1
      using skipWs_length [of r0] that b Cons by (auto intro!: E M)
    then show ?thesis
      using Cons
      by (auto simp: parseValue.simps split: list.splits option.splits)
  qed
  have 2: "parseElements (Suc n) acc s \<noteq> OutOfFuel" if b: "2 * length s + 2 \<le> Suc n"
  proof (cases "parseValue n s")
    case OutOfFuel
    with V [of s] b show ?thesis by simp
  next
    case SyntaxError
    then show ?thesis by (simp add: parseElements.simps)
  next
    case (Parsed v r1)
    from parseValue_shorter [OF Parsed] have l: "length r1 < length s" .
    have "parseElements n (acc @ [v]) (skipWs r2) \<noteq> OutOfFuel" if "skipWs r1 = d # r2" for d r2
      using skipWs_Cons_length [OF that] skipWs_length [of r2] l b by (auto intro!: E)
    with Parsed show ?thesis
      by (auto simp: parseElements.simps split: list.splits)
  qed
  have 3: "parseMembers (Suc n) kvs s \<noteq> OutOfFuel" if b: "2 * length s + 2 \<le> Suc n"
  proof (cases s)
    case Nil
    then show ?thesis by (simp add: parseMembers.simps)
  next
    case (Cons q r0)
    have v: "parseValue n (skipWs r2) \<noteq> OutOfFuel"
      if "parseString [] r0 = Some (k, r1)" "skipWs r1 = d # r2" for k r1 d r2
      using parseString_shorter [OF that(1)] skipWs_Cons_length [OF that(2)] skipWs_length [of r2]
        b Cons
      by (auto intro!: V)
    have m: "parseMembers n kvs' (skipWs r4) \<noteq> OutOfFuel"
      if "parseString [] r0 = Some (k, r1)" "skipWs r1 = d # r2"
        "parseValue n (skipWs r2) = Parsed v1 r3" "skipWs r3 = g # r4" for k r1 d r2 v1 r3 g r4 kvs'
      using parseString_shorter [OF that(1)] skipWs_Cons_length [OF that(2)] skipWs_length [of r2]
        parseValue_shorter [OF that(3)] skipWs_Cons_length [OF that(4)] skipWs_length [of r4]
        b Cons
      by (auto intro!: M)
    show ?thesis
      using Cons v m
      by (auto simp: parseMembers.simps split: list.splits option.splits presult.splits)
  qed
  from 1 2 3 show ?case by blast
qed

lemma JSON_parse_ref_fuel: "JSON_parse_ref s \<noteq> Inl outOfFuelMessage"
proof -
  have "2 * length (skipWs s) + 1 \<le> 2 * length s + 2"
    using skipWs_length [of s] by simp
  then have "parseValue (2 * length s + 2) (skipWs s) \<noteq> OutOfFuel"
    using parser_fuel by blast
  moreover have "syntaxErrorMessage \<noteq> outOfFuelMessage"
    by (simp add: syntaxErrorMessage_def outOfFuelMessage_def js_def)
  ultimately show ?thesis
    by (auto simp: JSON_parse_ref_def split: presult.splits)
qed

section \<open>The scan page never stores a stream\<close>

text \<open>
  The video element is rendered only when \<open>cameraEnabled\<close> is set, and \<open>cameraEnabled\<close>
  and \<open>stream\<close> are set only when the video element is rendered or \<open>stream\<close> is set
  already. So in every state the page can reach, whatever the events, no stream is held
  by the state and none is ever stopped: every stream \<open>getUserMedia\<close> hands out stays
  live.
\<close>

lemma videoRendered_off: "\<not> cameraEnabled p \<Longrightarrow> \<not> videoRendered p"
  by (simp add: videoRendered_def)

lemma init_keeps:
  "stream (page w) = None \<Longrightarrow> stopped w = [] \<Longrightarrow> effectStream w = None \<Longrightarrow>
   cameraNeverStored (init env cam w)"
  by (auto simp: init_def cameraNeverStored_def Let_def videoRendered_def
      split: prod.splits sum.splits camera.splits)

lemma mount_keeps: "cameraNeverStored (mount env cam sv)"
  unfolding mount_def by (rule init_keeps) simp_all

lemma step_keeps: "cameraNeverStored w \<Longrightarrow> cameraNeverStored (step w e)"
proof (cases e)
  case (Effect env cam)
  assume "cameraNeverStored w"
  then show ?thesis
    by (simp add: Effect step_def runEffect_def cameraNeverStored_def)
next
  case (SelectApiKey env)
  assume "cameraNeverStored w"
  then show ?thesis
    by (auto simp: SelectApiKey step_def handleSelectApiKey_def cameraNeverStored_def
        split: option.splits sum.splits)
next
  case (TakePhoto c d)
  assume "cameraNeverStored w"
  then show ?thesis
    by (auto simp: TakePhoto step_def captureImage_def cameraNeverStored_def videoRendered_def)
next
  case (Upload f)
  assume "cameraNeverStored w"
  then show ?thesis
    by (auto simp: Upload step_def handleFileChange_def cameraNeverStored_def Let_def
        split: option.splits prod.splits)
next
  case (Analyze env)
  assume "cameraNeverStored w"
  then show ?thesis
    by (auto simp: Analyze step_def handleAnalyze_def cameraNeverStored_def unmount_def cleanup_def
        split: option.splits prod.splits sum.splits)
next
  case (Retake cam)
  assume "cameraNeverStored w"
  then show ?thesis
    by (auto simp: Retake step_def retakePhoto_def cameraNeverStored_def Let_def videoRendered_def
        split: camera.splits)
next
  case NavigateAway
  assume "cameraNeverStored w"
  then show ?thesis
    by (auto simp: NavigateAway step_def unmount_def cleanup_def cameraNeverStored_def)
qed

lemma foldl_step_keeps: "cameraNeverStored w \<Longrightarrow> cameraNeverStored (foldl step w events)"
  by (induction events arbitrary: w) (simp_all add: step_keeps)

lemma run_keeps: "cameraNeverStored (run env cam sv events)"
  unfolding run_def by (rule foldl_step_keeps [OF mount_keeps])

lemma run_live: "live (run env cam sv events) = [0..<acquired (run env cam sv events)]"
  using run_keeps [of env cam sv events] by (simp add: live_def cameraNeverStored_def)

lemma mount_value:
  "mount (sampleEnv []) Granted st0 =
     \<lparr>page = \<lparr>loading = False, isInitializing = False, stream = None, capturedImage = None,
               imageMimeType = None, apiKeyRequired = False, cameraEnabled = False,
               cameraUnavailable = False\<rparr>,
      service = st0, mounted = True, acquired = 1, stopped = [], effectStream = None\<rparr>"
  by (simp add: mount_def init_def checkAndPromptApiKey_def sampleEnv_def isProcessEnvApiKeySet_def
      js_def st0_def videoRendered_def Let_def)

section \<open>The claims\<close>

text \<open>
  C1. Between two plain fences, with no \<open>json\<close> after the opening one, the valid sample
  is not read as it is read alone: alone it is returned, fenced it fails as invalid
  JSON. The closing fence is removed and the opening one is not, so the text handed to
  the parser starts with the three backticks.
\<close>

theorem analyzeSkinImage_plain_fence_differs:
  "analyzeSkinImage (sampleEnv sampleText) st0 = (Inr sampleResult, called st0) \<and>
   analyzeSkinImage (sampleEnv (plainFenced sampleText)) st0 =
     (Inl (Error (msgNotValidJSON syntaxErrorMessage (js ''```'' @ [0x0A] @ sampleText))),
      called st0)"
proof -
  have 1: "analyzeSkinImage (sampleEnv sampleText) st0 = (Inr sampleResult, called st0)"
    using analyzeSkinImage_parsesTo [OF parsesTo_sample, of st0] validate_sample by simp
  have b: "sampleText \<noteq> []" "hd sampleText = 0x7B" "last sampleText = 0x7D"
    using responseText_braces unfolding sampleText_def by blast+
  have p: "plainFenced sampleText \<noteq> []"
    by (simp add: plainFenced_def js_def)
  have 2: "analyzeSkinImage (sampleEnv (plainFenced sampleText)) st0 =
     (Inl (Error (msgNotValidJSON syntaxErrorMessage (fence @ [0x0A] @ sampleText))), called st0)"
    by (rule analyzeSkinImage_not_json [where response = "plainFenced sampleText"])
      (use plainFenced_cleaned [OF b] p sampleText_no_q parse_backtick in
        \<open>simp_all add: sampleEnv_def isProcessEnvApiKeySet_def fence_def js_def syntaxErrorMessage_def\<close>)
  from 1 2 show ?thesis by (simp add: fence_def)
qed

text \<open>
  C2, as the code has it. One \<open>if\<close> guards the top level, and its error, the top-level
  one, is raised exactly when one of its nine tests holds of the parsed value: the value
  is falsy, \<open>overallScore\<close> is not of type number, \<open>skinType\<close> is not one of the five
  strings, \<open>fitzpatrickScale\<close> is not one of the seven strings, \<open>typeof\<close> of \<open>issues\<close> or
  of \<open>recommendations\<close> is not \<open>object\<close>, \<open>issues\<close> or \<open>recommendations\<close> is \<open>null\<close>, or
  \<open>explainability\<close> is falsy. So a value outside an enumeration fails with the same
  error as a missing member; \<open>oily\<close> passes the check of \<open>skinType\<close> and \<open>greasy\<close> does
  not. The tests are not a check of the types: the valid sample with the number 42 as its
  \<open>explainability\<close> is returned, and an empty array as \<open>issues\<close> or as \<open>recommendations\<close>
  passes the top level and fails in the loop that follows, with the error that names
  \<open>acne\<close> or \<open>morningRoutine\<close>. The top-level error is none of the errors the later
  checks of issues and recommendations raise.
\<close>

theorem analyzeSkinImage_top_level_one_error:
  "parsesTo env text parsedResult \<Longrightarrow>
   (analyzeSkinImage env st = (Inl (Error msgTopLevel), called st)) =
     (\<not> truthy (Some parsedResult) \<or>
      typeof (getProp parsedResult (js ''overallScore'')) \<noteq> TNumber \<or>
      \<not> array_includes skinTypes (getProp parsedResult (js ''skinType'')) \<or>
      \<not> array_includes fitzpatrickScales (getProp parsedResult (js ''fitzpatrickScale'')) \<or>
      typeof (getProp parsedResult (js ''issues'')) \<noteq> TObject \<or>
      getProp parsedResult (js ''issues'') = Some JNull \<or>
      typeof (getProp parsedResult (js ''recommendations'')) \<noteq> TObject \<or>
      getProp parsedResult (js ''recommendations'') = Some JNull \<or>
      \<not> truthy (getProp parsedResult (js ''explainability''))) \<and>
   array_includes skinTypes (Some (JString (js ''oily''))) \<and>
   \<not> array_includes skinTypes (Some (JString (js ''greasy''))) \<and>
   analyzeSkinImage (sampleEnv explainNumberText) st0 = (Inr explainNumberResult, called st0) \<and>
   getProp explainNumberResult (js ''explainability'') = Some (JNumber 42) \<and>
   analyzeSkinImage (sampleEnv issuesArrayText) st0 =
     (Inl (Error (msgIssueScore (js ''acne''))), called st0) \<and>
   getProp issuesArrayResult (js ''issues'') = Some (JArray []) \<and>
   analyzeSkinImage (sampleEnv recommendationsArrayText) st0 =
     (Inl (Error (msgRecommendation (js ''morningRoutine''))), called st0) \<and>
   getProp recommendationsArrayResult (js ''recommendations'') = Some (JArray []) \<and>
   msgTopLevel \<noteq> msgIssueScore key \<and> msgTopLevel \<noteq> msgIssueSeverity key \<and>
   msgTopLevel \<noteq> msgSymmetryDescription \<and> msgTopLevel \<noteq> msgRecommendation key"
proof -
  assume p: "parsesTo env text parsedResult"
  have a: "analyzeSkinImage env st = (validate parsedResult, called st)"
    by (rule analyzeSkinImage_parsesTo [OF p])
  have "(validate parsedResult = Inl (Error msgTopLevel)) = topLevelMalformed parsedResult"
    using validate_topLevel_only validate_topLevelMalformed by blast
  with a have 1: "(analyzeSkinImage env st = (Inl (Error msgTopLevel), called st)) =
     (\<not> truthy (Some parsedResult) \<or>
      typeof (getProp parsedResult (js ''overallScore'')) \<noteq> TNumber \<or>
      \<not> array_includes skinTypes (getProp parsedResult (js ''skinType'')) \<or>
      \<not> array_includes fitzpatrickScales (getProp parsedResult (js ''fitzpatrickScale'')) \<or>
      typeof (getProp parsedResult (js ''issues'')) \<noteq> TObject \<or>
      getProp parsedResult (js ''issues'') = Some JNull \<or>
      typeof (getProp parsedResult (js ''recommendations'')) \<noteq> TObject \<or>
      getProp parsedResult (js ''recommendations'') = Some JNull \<or>
      \<not> truthy (getProp parsedResult (js ''explainability'')))"
    unfolding topLevelMalformed_def by simp
  have 2: "array_includes skinTypes (Some (JString (js ''oily''))) \<and>
    \<not> array_includes skinTypes (Some (JString (js ''greasy'')))"
    by (simp add: skinTypes_def js_def)
  have 3: "analyzeSkinImage (sampleEnv explainNumberText) st0 =
    (Inr explainNumberResult, called st0)"
    using analyzeSkinImage_parsesTo [OF parsesTo_explainNumber, of st0] validate_explainNumber
    by simp
  have 4: "analyzeSkinImage (sampleEnv issuesArrayText) st0 =
     (Inl (Error (msgIssueScore (js ''acne''))), called st0)"
    using analyzeSkinImage_parsesTo [OF parsesTo_issuesArray, of st0] validate_issuesArray
    by simp
  have 5: "analyzeSkinImage (sampleEnv recommendationsArrayText) st0 =
     (Inl (Error (msgRecommendation (js ''morningRoutine''))), called st0)"
    using analyzeSkinImage_parsesTo [OF parsesTo_recommendationsArray, of st0]
      validate_recommendationsArray
    by simp
  have 6: "getProp explainNumberResult (js ''explainability'') = Some (JNumber 42) \<and>
    getProp issuesArrayResult (js ''issues'') = Some (JArray []) \<and>
    getProp recommendationsArrayResult (js ''recommendations'') = Some (JArray [])"
    by (simp add: explainNumberResult_def issuesArrayResult_def recommendationsArrayResult_def
        sample_simps js_def)
  note 7 = msgTopLevel_distinct [of key]
  from 1 2 3 4 5 6 7 show ?thesis by blast
qed

theorem analyzeSkinImage_top_level_one_error_witness:
  "parsesTo (sampleEnv greasyText) greasyText greasyResult \<and>
   \<not> array_includes skinTypes (getProp greasyResult (js ''skinType'')) \<and>
   analyzeSkinImage (sampleEnv greasyText) st0 = (Inl (Error msgTopLevel), called st0) \<and>
   parsesTo (sampleEnv sampleText) sampleText sampleResult \<and>
   analyzeSkinImage (sampleEnv sampleText) st0 \<noteq> (Inl (Error msgTopLevel), called st0)"
proof -
  have g: "\<not> array_includes skinTypes (getProp greasyResult (js ''skinType''))"
    by (simp add: greasyResult_def sample_simps skinTypes_def js_def)
  have s: "\<not> (\<not> truthy (Some sampleResult) \<or>
      typeof (getProp sampleResult (js ''overallScore'')) \<noteq> TNumber \<or>
      \<not> array_includes skinTypes (getProp sampleResult (js ''skinType'')) \<or>
      \<not> array_includes fitzpatrickScales (getProp sampleResult (js ''fitzpatrickScale'')) \<or>
      typeof (getProp sampleResult (js ''issues'')) \<noteq> TObject \<or>
      getProp sampleResult (js ''issues'') = Some JNull \<or>
      typeof (getProp sampleResult (js ''recommendations'')) \<noteq> TObject \<or>
      getProp sampleResult (js ''recommendations'') = Some JNull \<or>
      \<not> truthy (getProp sampleResult (js ''explainability'')))"
    by (simp add: sampleResult_def sample_simps skinTypes_def fitzpatrickScales_def js_def)
  from analyzeSkinImage_top_level_one_error [OF parsesTo_greasy, of st0]
    analyzeSkinImage_top_level_one_error [OF parsesTo_sample, of st0]
    g s parsesTo_greasy parsesTo_sample
  show ?thesis by blast
qed

text \<open>
  C2 as the specification has it, with \<open>InvalidEnum\<close> a kind of its own that the caller
  can tell from \<open>InvalidTopLevel\<close>, fails: a response whose only top-level fault is the
  \<open>skinType\<close> \<open>greasy\<close> and one whose only top-level fault is the missing
  \<open>overallScore\<close> fail with the same error.
\<close>

theorem analyzeSkinImage_top_level_one_error_counterexample:
  "getProp greasyResult (js ''skinType'') = Some (JString (js ''greasy'')) \<and>
   typeof (getProp greasyResult (js ''overallScore'')) = TNumber \<and>
   getProp noScoreResult (js ''skinType'') = Some (JString (js ''oily'')) \<and>
   getProp noScoreResult (js ''overallScore'') = None \<and>
   fst (analyzeSkinImage (sampleEnv greasyText) st0) =
   fst (analyzeSkinImage (sampleEnv noScoreText) st0)"
proof -
  have "topLevelMalformed greasyResult"
    by (simp add: topLevelMalformed_def greasyResult_def sample_simps skinTypes_def js_def)
  then have 1: "analyzeSkinImage (sampleEnv greasyText) st0 = (Inl (Error msgTopLevel), called st0)"
    using analyzeSkinImage_parsesTo [OF parsesTo_greasy, of st0] validate_topLevelMalformed by simp
  have "topLevelMalformed noScoreResult"
    by (simp add: topLevelMalformed_def noScoreResult_def sample_simps js_def)
  then have 2: "analyzeSkinImage (sampleEnv noScoreText) st0 = (Inl (Error msgTopLevel), called st0)"
    using analyzeSkinImage_parsesTo [OF parsesTo_noScore, of st0] validate_topLevelMalformed by simp
  have 3: "getProp greasyResult (js ''skinType'') = Some (JString (js ''greasy'')) \<and>
   typeof (getProp greasyResult (js ''overallScore'')) = TNumber"
    by (simp add: greasyResult_def sample_simps js_def)
  have 4: "getProp noScoreResult (js ''skinType'') = Some (JString (js ''oily'')) \<and>
   getProp noScoreResult (js ''overallScore'') = None"
    by (simp add: noScoreResult_def sample_simps js_def)
  from 1 2 3 4 show ?thesis by simp
qed




text \<open>
  C4. A response that is two plain fences and nothing else is not empty after the
  cleaning: the closing fence is removed, the opening one stays, and the failure is the
  one of invalid JSON, not one of the two errors of an empty response.
\<close>

theorem analyzeSkinImage_plain_fences_only:
  "analyzeSkinImage (sampleEnv plainFencesOnly) st0 =
     (Inl (Error (msgNotValidJSON syntaxErrorMessage (js ''```''))), called st0) \<and>
   msgNotValidJSON syntaxErrorMessage (js ''```'') \<noteq> msgEmpty \<and>
   msgNotValidJSON syntaxErrorMessage (js ''```'') \<noteq> msgEmptyAfterCleaning"
proof -
  have t: "trim plainFencesOnly = plainFencesOnly"
    by (rule trim_id) (simp_all add: plainFencesOnly_def js_def isWhiteSpace_def)
  have s: "stripFences plainFencesOnly = js ''```'' @ [0x0A]"
    by (simp add: stripFences_def plainFencesOnly_def startsWith_def endsWith_def fenceJson_def
        fence_def js_def)
  have c: "trim (js ''```'' @ [0x0A]) = js ''```''"
    by (simp add: trim_def js_def isWhiteSpace_def)
  have 1: "analyzeSkinImage (sampleEnv plainFencesOnly) st0 =
     (Inl (Error (msgNotValidJSON syntaxErrorMessage (js ''```''))), called st0)"
    by (rule analyzeSkinImage_not_json [where response = plainFencesOnly])
      (use t s c parse_backtick in
        \<open>simp_all add: sampleEnv_def isProcessEnvApiKeySet_def js_def syntaxErrorMessage_def
          plainFencesOnly_def\<close>)
  have 2: "msgNotValidJSON syntaxErrorMessage (js ''```'') \<noteq> msgEmpty \<and>
   msgNotValidJSON syntaxErrorMessage (js ''```'') \<noteq> msgEmptyAfterCleaning"
    by (simp add: msgNotValidJSON_def msgEmpty_def msgEmptyAfterCleaning_def js_def)
  from 1 2 show ?thesis by simp
qed

text \<open>
  C5, as the code has it. With no credential in the environment \<open>analyzeSkinImage\<close>
  fails at once with its own error, \<open>API_KEY is not defined. Please select an API key to
  proceed.\<close>; the state is untouched, so no remote call was made and no picker opened,
  whether or not a selection had been made before. That error is not the
  \<open>API_KEY_REQUIRED_NO_AISTUDIO\<close> that the credential check and the recovery procedure
  raise.
\<close>

theorem analyzeSkinImage_no_credential:
  "\<not> isProcessEnvApiKeySet env \<Longrightarrow>
   analyzeSkinImage env st = (Inl (Error msgNoApiKey), st) \<and>
   Error msgNoApiKey \<noteq> Error API_KEY_REQUIRED_NO_AISTUDIO"
  by (simp add: analyzeSkinImage_def msgNoApiKey_def API_KEY_REQUIRED_NO_AISTUDIO_def js_def)

theorem analyzeSkinImage_no_credential_witness:
  "\<not> isProcessEnvApiKeySet noCredentialEnv \<and>
   analyzeSkinImage noCredentialEnv stNoSelection = (Inl (Error msgNoApiKey), stNoSelection) \<and>
   remoteCalls (snd (analyzeSkinImage noCredentialEnv stNoSelection)) = 0"
proof -
  have n: "\<not> isProcessEnvApiKeySet noCredentialEnv"
    by (simp add: isProcessEnvApiKeySet_def noCredentialEnv_def)
  from analyzeSkinImage_no_credential [OF n, of stNoSelection] n
  show ?thesis by (simp add: stNoSelection_def)
qed

text \<open>
  C5 as the specification has it, that this failure is the kind
  \<open>CredentialRequiredNoPicker\<close>, fails: with no credential, no picker and no selection
  made, the credential check raises \<open>API_KEY_REQUIRED_NO_AISTUDIO\<close> and
  \<open>analyzeSkinImage\<close> raises another error.
\<close>

theorem analyzeSkinImage_no_credential_counterexample:
  "fst (checkAndPromptApiKey noCredentialEnv stNoSelection) =
     Inl (Error API_KEY_REQUIRED_NO_AISTUDIO) \<and>
   fst (analyzeSkinImage noCredentialEnv stNoSelection) \<noteq>
     Inl (Error API_KEY_REQUIRED_NO_AISTUDIO)"
  by (simp add: checkAndPromptApiKey_def analyzeSkinImage_def isProcessEnvApiKeySet_def
      noCredentialEnv_def msgNoApiKey_def API_KEY_REQUIRED_NO_AISTUDIO_def js_def)

text \<open>
  C6. Not every error without the signal comes back from \<open>handleApiKeyError\<close> as it was
  given. The test \<open>error.message && error.message.includes(...)\<close> is evaluated on the
  value as caught: on the object \<open>{message: 404}\<close> the call of \<open>includes\<close> throws, on a
  thrown \<open>null\<close> the read of \<open>message\<close> throws, and that \<open>TypeError\<close> leaves the procedure,
  and \<open>analyzeSkinImage\<close> after it, in place of the value the remote call rejected with.
  An error of the network with a text that has no signal in it does come back as it is.
  The state is as before in each case.
\<close>

theorem handleApiKeyError_masks_unrelated_error:
  "handleApiKeyError (rejectingEnv numberMessage) numberMessage st0 = (Inl TypeError, st0) \<and>
   handleApiKeyError (rejectingEnv Nullish) Nullish st0 = (Inl TypeError, st0) \<and>
   analyzeSkinImage (rejectingEnv numberMessage) st0 = (Inl TypeError, called st0) \<and>
   analyzeSkinImage (rejectingEnv Nullish) st0 = (Inl TypeError, called st0) \<and>
   TypeError \<noteq> numberMessage \<and> TypeError \<noteq> Nullish \<and>
   handleApiKeyError (rejectingEnv failedToFetch) failedToFetch st0 = (Inl failedToFetch, st0) \<and>
   analyzeSkinImage (rejectingEnv failedToFetch) st0 = (Inl failedToFetch, called st0)"
proof -
  have n: "messageTest numberMessage = Inl TypeError" "messageTest Nullish = Inl TypeError"
    by (simp_all add: numberMessage_def)
  have f: "messageTest failedToFetch = Inr False"
    using str_includes_absent [OF q_in_signal, of "js ''Failed to fetch''"]
    by (simp add: failedToFetch_def js_def)
  have k: "isProcessEnvApiKeySet (rejectingEnv e)" "generateContent (rejectingEnv e) = Inl e" for e
    by (simp_all add: rejectingEnv_def isProcessEnvApiKeySet_def js_def)
  have 1: "handleApiKeyError env numberMessage st = (Inl TypeError, st)"
    "handleApiKeyError env Nullish st = (Inl TypeError, st)" for env st
    using n by (simp_all add: handleApiKeyError_test_throws)
  have 2: "handleApiKeyError env failedToFetch st = (Inl failedToFetch, st)" for env st
    using f by (rule handleApiKeyError_other)
  have 3: "analyzeSkinImage (rejectingEnv numberMessage) st0 = (Inl TypeError, called st0)"
    "analyzeSkinImage (rejectingEnv Nullish) st0 = (Inl TypeError, called st0)"
    "analyzeSkinImage (rejectingEnv failedToFetch) st0 = (Inl failedToFetch, called st0)"
    by (simp_all add: analyzeSkinImage_def k 1 2 called_def)
  have 4: "TypeError \<noteq> numberMessage \<and> TypeError \<noteq> Nullish"
    by (simp add: numberMessage_def)
  from 1 2 3 4 show ?thesis by simp
qed

text \<open>
  C7. When the cleaned text of the response parses to a value that passes every
  structural check, \<open>analyzeSkinImage\<close> returns that parsed value itself: nothing is
  normalized, rounded, defaulted, added or removed. The only effect is the one remote
  call. The sample response (overallScore 72, skinType oily, fitzpatrickScale III, ten
  issues, four lists of recommendations) is the witness.
\<close>

theorem analyzeSkinImage_returns_parsed_verbatim:
  "parsesTo env text parsedResult \<Longrightarrow> validate parsedResult = Inr r \<Longrightarrow>
   r = parsedResult \<and> analyzeSkinImage env st = (Inr parsedResult, called st)"
proof -
  assume p: "parsesTo env text parsedResult" and v: "validate parsedResult = Inr r"
  from v have "r = parsedResult"
    by (auto simp: validate_def split: if_splits option.splits prod.splits)
  with v analyzeSkinImage_parsesTo [OF p, of st] show ?thesis by simp
qed

theorem analyzeSkinImage_returns_parsed_verbatim_witness:
  "parsesTo (sampleEnv sampleText) sampleText sampleResult \<and>
   validate sampleResult = Inr sampleResult \<and>
   analyzeSkinImage (sampleEnv sampleText) st0 = (Inr sampleResult, called st0)"
  using analyzeSkinImage_returns_parsed_verbatim [OF parsesTo_sample validate_sample, of st0]
    parsesTo_sample validate_sample
  by simp

text \<open>
  C8. On a device with a camera and with a credential in the environment, the page
  mounted and left again leaves the stream it acquired live; an upload followed by a
  retake acquires a second stream while the first is still live, and the page is not
  camera-ready after it.
\<close>

theorem scanPage_leaks_streams:
  "live (run (sampleEnv []) Granted st0 [NavigateAway]) = [0] \<and>
   \<not> mounted (run (sampleEnv []) Granted st0 [NavigateAway]) \<and>
   live (run (sampleEnv []) Granted st0
           [Upload (Some (js ''image/png'', Some (js ''AAAA''))), Retake Granted]) = [0, 1] \<and>
   \<not> cameraEnabled (page (run (sampleEnv []) Granted st0
           [Upload (Some (js ''image/png'', Some (js ''AAAA''))), Retake Granted])) \<and>
   mounted (run (sampleEnv []) Granted st0
           [Upload (Some (js ''image/png'', Some (js ''AAAA''))), Retake Granted])"
  by (simp add: run_def mount_value step_def unmount_def cleanup_def live_def
      handleFileChange_def retakePhoto_def present_def videoRendered_def js_def Let_def upt_rec)

text \<open>
  C9. A response whose \<open>explainability\<close> is falsy (absent, \<open>null\<close>, \<open>false\<close>, zero or the
  empty string) is rejected with the top-level error, whatever the rest of it: the
  check is for truthiness, not for a string. The witness is a response of the declared
  type \<open>SkinAnalysisResult\<close> in every member, with the empty string as its
  \<open>explainability\<close>.
\<close>

theorem analyzeSkinImage_rejects_falsy_explainability:
  "parsesTo env text parsedResult \<Longrightarrow>
   \<not> truthy (getProp parsedResult (js ''explainability'')) \<Longrightarrow>
   analyzeSkinImage env st = (Inl (Error msgTopLevel), called st)"
  using analyzeSkinImage_parsesTo [of env _ parsedResult st]
    validate_topLevelMalformed [of parsedResult]
  by (simp add: topLevelMalformed_def)

theorem analyzeSkinImage_rejects_falsy_explainability_witness:
  "parsesTo (sampleEnv emptyExplainText) emptyExplainText emptyExplainResult \<and>
   conformsSkinAnalysisResult emptyExplainResult \<and>
   getProp emptyExplainResult (js ''explainability'') = Some (JString []) \<and>
   \<not> truthy (getProp emptyExplainResult (js ''explainability'')) \<and>
   analyzeSkinImage (sampleEnv emptyExplainText) st0 = (Inl (Error msgTopLevel), called st0)"
proof -
  have c: "conformsSkinAnalysisResult emptyExplainResult"
    by (simp add: conformsSkinAnalysisResult_def conformsIssue_def conformsSymmetry_def
        emptyExplainResult_def sample_simps requiredIssueKeys_def requiredRecommendationKeys_def
        skinTypes_def fitzpatrickScales_def js_def)
  have e: "getProp emptyExplainResult (js ''explainability'') = Some (JString [])"
    by (simp add: emptyExplainResult_def sample_simps js_def)
  then have f: "\<not> truthy (getProp emptyExplainResult (js ''explainability''))"
    by simp
  from analyzeSkinImage_rejects_falsy_explainability [OF parsesTo_emptyExplain f, of st0]
    parsesTo_emptyExplain c e f
  show ?thesis by simp
qed

text \<open>
  C10. The \<open>areas\<close> of the nine entries other than \<open>symmetry\<close> is never checked: take a
  response that passes the validation and put any value at all as the \<open>areas\<close> of one
  of these entries; the response still passes, and \<open>analyzeSkinImage\<close> returns it as it
  is, with that value as the \<open>areas\<close> of the entry.
\<close>

theorem analyzeSkinImage_ignores_areas:
  "parsesTo env text (setAreas v key x) \<Longrightarrow> validate v = Inr v \<Longrightarrow>
   key \<in> set (butlast requiredIssueKeys) \<Longrightarrow>
   analyzeSkinImage env st = (Inr (setAreas v key x), called st) \<and>
   (\<exists>issues issue. getProp (setAreas v key x) (js ''issues'') = Some issues \<and>
      getProp issues key = Some issue \<and> getProp issue (js ''areas'') = Some x)"
  using analyzeSkinImage_parsesTo [of env _ "setAreas v key x" st] validate_setAreas [of v key x]
  by simp

theorem analyzeSkinImage_ignores_areas_witness:
  "parsesTo (sampleEnv areasNumberText) areasNumberText
     (setAreas sampleResult (js ''wrinkles'') (JNumber 5)) \<and>
   validate sampleResult = Inr sampleResult \<and>
   js ''wrinkles'' \<in> set (butlast requiredIssueKeys) \<and>
   analyzeSkinImage (sampleEnv areasNumberText) st0 =
     (Inr (setAreas sampleResult (js ''wrinkles'') (JNumber 5)), called st0)"
proof -
  have k: "js ''wrinkles'' \<in> set (butlast requiredIssueKeys)"
    by (simp add: requiredIssueKeys_def)
  from analyzeSkinImage_ignores_areas [OF parsesTo_areasNumber validate_sample k, of st0]
    parsesTo_areasNumber validate_sample k
  show ?thesis by blast
qed

end
